theory Spec2Isabelle
  imports Main "HOL-Library.Sublist"
begin

section \<open>Remote destroy (cmd/destroy/remote.go)\<close>

text \<open>
  A shallow embedding of \<^verbatim>\<open>cmd/destroy/remote.go\<close>: the destroy command that renders a
  Dockerfile whose build runs \<^verbatim>\<open>okteto destroy\<close> inside the cluster. Go strings are byte
  strings and are modelled as \<^typ>\<open>string\<close>.
\<close>

subsection \<open>Library functions used by the file\<close>

text \<open>The line feed, which no string literal can hold.\<close>

definition NL :: string where
  "NL = [CHR 0x0A]"

text \<open>\<^verbatim>\<open>strings.Join(elems, sep)\<close>.\<close>

fun Join :: "string list \<Rightarrow> string \<Rightarrow> string" where
  "Join [] sep = []"
| "Join [x] sep = x"
| "Join (x # y # ys) sep = x @ sep @ Join (y # ys) sep"

text \<open>
  \<^verbatim>\<open>fmt.Sprintf\<close> for operands that are strings (an error operand is passed as the text of
  its \<^verbatim>\<open>Error()\<close>). The formats of this file use the verb \<^verbatim>\<open>%s\<close> and, in \<^verbatim>\<open>fmt.Errorf\<close>, the verb
  \<^verbatim>\<open>%w\<close>, which prints its operand as \<^verbatim>\<open>%s\<close> does; no other verb is modelled. A verb without
  operand prints \<^verbatim>\<open>%!s(MISSING)\<close> and operands left over print \<^verbatim>\<open>%!(EXTRA string=...)\<close>, as fmt
  does.
\<close>

fun Sprintf :: "string \<Rightarrow> string list \<Rightarrow> string" where
  "Sprintf [] args =
     (if args = [] then [] else ''%!(EXTRA '' @ Join (map (\<lambda>a. ''string='' @ a) args) '', '' @ '')'')"
| "Sprintf [c] args = (if c = CHR ''%'' then ''%!(NOVERB)'' else [c]) @ Sprintf [] args"
| "Sprintf (c # d # cs) args =
     (if c = CHR ''%'' \<and> (d = CHR ''s'' \<or> d = CHR ''w'') then
        (case args of
           [] \<Rightarrow> ''%!s(MISSING)'' @ Sprintf cs []
         | a # as \<Rightarrow> a @ Sprintf cs as)
      else c # Sprintf (d # cs) args)"

text \<open>\<^verbatim>\<open>base64.StdEncoding.EncodeToString\<close>: three bytes give four characters, padded with \<^verbatim>\<open>=\<close>.\<close>

definition encodeStd :: string where
  "encodeStd = ''ABCDEFGHIJKLMNOPQRSTUVWXYZabcdefghijklmnopqrstuvwxyz0123456789+/''"

fun base64_sextets :: "nat list \<Rightarrow> string" where
  "base64_sextets [] = []"
| "base64_sextets [a] =
     [encodeStd ! (a div 4), encodeStd ! (a mod 4 * 16), CHR ''='', CHR ''='']"
| "base64_sextets [a, b] =
     [encodeStd ! (a div 4), encodeStd ! (a mod 4 * 16 + b div 16), encodeStd ! (b mod 16 * 4), CHR ''='']"
| "base64_sextets (a # b # c # bs) =
     [encodeStd ! (a div 4), encodeStd ! (a mod 4 * 16 + b div 16),
      encodeStd ! (b mod 16 * 4 + c div 64), encodeStd ! (c mod 64)] @ base64_sextets bs"

definition base64_EncodeToString :: "string \<Rightarrow> string" where
  "base64_EncodeToString src = base64_sextets (map of_char src)"

text \<open>Decimal printing of an \<^verbatim>\<open>int\<close>, as text/template prints the field \<^verbatim>\<open>RandomInt\<close>; a number
  \<open>n\<close> has at most \<open>n + 1\<close> digits, which bounds the recursion.\<close>

definition decimalDigits :: string where
  "decimalDigits = ''0123456789''"

fun natDigits :: "nat \<Rightarrow> nat \<Rightarrow> string" where
  "natDigits 0 n = []"
| "natDigits (Suc fuel) n =
     (if n < 10 then [decimalDigits ! n]
      else natDigits fuel (n div 10) @ [decimalDigits ! (n mod 10)])"

definition Itoa :: "int \<Rightarrow> string" where
  "Itoa i = (if i < 0 then CHR ''-'' # natDigits (Suc (nat (- i))) (nat (- i))
             else natDigits (Suc (nat i)) (nat i))"

subsection \<open>Errors\<close>

text \<open>
  The error values the file handles. \<open>ErrorString m\<close> is an error with message \<open>m\<close> and no
  \<^verbatim>\<open>Unwrap\<close> (\<^verbatim>\<open>errors.New\<close>, \<^verbatim>\<open>fmt.Errorf\<close> without \<^verbatim>\<open>%w\<close>); \<open>ErrNotExist\<close> is \<^verbatim>\<open>os.ErrNotExist\<close>;
  \<open>WrapError m err\<close> is an error with message \<open>m\<close> whose \<^verbatim>\<open>Unwrap\<close> returns \<open>err\<close> (what
  \<^verbatim>\<open>fmt.Errorf\<close> builds for \<^verbatim>\<open>%w\<close>, and what \<^verbatim>\<open>os.PathError\<close> is); \<open>OktetoCommandErr err stage\<close> is
  \<^verbatim>\<open>build.OktetoCommandErr{Err, Stage}\<close> and \<open>UserError e hint\<close> is \<^verbatim>\<open>oktetoErrors.UserError{E, Hint}\<close>.
\<close>

datatype goerr =
    ErrorString string
  | ErrNotExist
  | WrapError string goerr
  | OktetoCommandErr goerr string
  | UserError goerr string

subsection \<open>Data\<close>

text \<open>\<^verbatim>\<open>model.Manifest\<close>, of which the file reads \<^verbatim>\<open>Destroy.Image\<close> only.\<close>

record Manifest =
  Destroy_Image :: string

text \<open>\<^verbatim>\<open>model.BuildInfo\<close> and \<^verbatim>\<open>types.BuildOptions\<close>: the fields the file sets; the others keep
  their zero values.\<close>

record BuildInfo =
  Dockerfile :: string

record BuildOptions =
  Path :: string
  OutputMode :: string
  File :: string
  BuildArgs :: "string list"
  Manifest :: "Manifest option"

text \<open>\<^verbatim>\<open>types.ClusterMetadata\<close>; a \<^verbatim>\<open>nil\<close> certificate is \<open>None\<close>.\<close>

record ClusterMetadata =
  Certificate :: "string option"
  ServerName :: string
  PipelineRunnerImage :: string
  PipelineInstallerImage :: string

text \<open>The fields of \<^verbatim>\<open>okteto.Context()\<close> that the file reads.\<close>

record OktetoContext =
  CtxName :: string
  CtxNamespace :: string
  CtxToken :: string

text \<open>\<^verbatim>\<open>dockerfileTemplateProperties\<close> (lines 76-95). \<open>OktetoBuildEnvVars\<close> lists the map's
  entries in the order in which text/template ranges over a map (sorted by key).\<close>

record dockerfileTemplateProperties =
  OktetoCLIImage :: string
  UserDestroyImage :: string
  InstallerImage :: string
  OktetoBuildEnvVars :: "(string \<times> string) list"
  ContextEnvVar :: string
  ContextValue :: string
  NamespaceEnvVar :: string
  NamespaceValue :: string
  TokenEnvVar :: string
  TokenValue :: string
  ActionNameEnvVar :: string
  ActionNameValue :: string
  GitCommitEnvVar :: string
  GitCommitValue :: string
  RemoteDeployEnvVar :: string
  DeployFlags :: string
  RandomInt :: int
  DestroyFlags :: string

text \<open>The fields of \<^verbatim>\<open>remoteDestroyCommand\<close> that are data; its collaborators follow below.\<close>

record remoteDestroyCommand =
  destroyImage :: string
  manifest :: Manifest

subsection \<open>Declarations outside the file\<close>

text \<open>
  What the file uses and other packages declare is a parameter of the model: the constants of
  \<^verbatim>\<open>pkg/constants\<close> and \<^verbatim>\<open>pkg/model\<close>, \<^verbatim>\<open>config.VersionString\<close>, whether the two error types have
  an \<^verbatim>\<open>Unwrap\<close> method and what their \<^verbatim>\<open>Error\<close> methods print (from the text of the inner error
  and the second field), \<^verbatim>\<open>build.OptsFromBuildInfoForRemoteDeploy\<close>, and \<^verbatim>\<open>filepath.Join\<close> of two
  elements.
\<close>

record Decls =
  OktetoCLIImageForRemoteTemplate :: string
  OKtetoDeployRemoteImage :: string
  OKtetoDeployRemote :: string
  OktetoGitCommitEnvVar :: string
  OktetoContextEnvVar :: string
  OktetoNamespaceEnvVar :: string
  OktetoTokenEnvVar :: string
  OktetoActionNameEnvVar :: string
  VersionString :: string
  UserError_Unwrap :: bool
  OktetoCommandErr_Unwrap :: bool
  UserError_Error :: "string \<Rightarrow> string \<Rightarrow> string"
  OktetoCommandErr_Error :: "string \<Rightarrow> string \<Rightarrow> string"
  OptsFromBuildInfoForRemoteDeploy :: "BuildInfo \<Rightarrow> BuildOptions \<Rightarrow> BuildOptions"
  filepath_Join :: "string \<Rightarrow> string \<Rightarrow> string"

text \<open>
  Modelled from the spec: \<^verbatim>\<open>build.OptsFromBuildInfoForRemoteDeploy\<close> is declared in
  \<^verbatim>\<open>pkg/cmd/build\<close>, outside the files at hand. The spec (4.5, step 6) has the build request
  carry the manifest path, the original working directory as build context and the "destroy"
  output mode: the Dockerfile of the build info becomes the request's file, and the options'
  own fields are kept.
\<close>

definition OptsFromBuildInfoForRemoteDeploy_spec :: "BuildInfo \<Rightarrow> BuildOptions \<Rightarrow> BuildOptions" where
  "OptsFromBuildInfoForRemoteDeploy_spec b opts = opts\<lparr>File := Dockerfile b\<rparr>"

subsection \<open>The errors package\<close>

text \<open>
  \<^verbatim>\<open>errors.As\<close> and \<^verbatim>\<open>errors.Is\<close> walk the chain of \<^verbatim>\<open>Unwrap\<close> from the error itself and stop at
  the first error of the target type (equal to the target). \<open>errors_As_OktetoCommandErr\<close> returns
  the fields \<^verbatim>\<open>(Err, Stage)\<close> of the error found, \<open>errors_As_UserError\<close> the fields \<^verbatim>\<open>(E, Hint)\<close>.
\<close>

fun errors_As_OktetoCommandErr :: "Decls \<Rightarrow> goerr \<Rightarrow> (goerr \<times> string) option" where
  "errors_As_OktetoCommandErr D (OktetoCommandErr e stage) = Some (e, stage)"
| "errors_As_OktetoCommandErr D (WrapError m e) = errors_As_OktetoCommandErr D e"
| "errors_As_OktetoCommandErr D (UserError e hint) =
     (if UserError_Unwrap D then errors_As_OktetoCommandErr D e else None)"
| "errors_As_OktetoCommandErr D (ErrorString m) = None"
| "errors_As_OktetoCommandErr D ErrNotExist = None"

fun errors_As_UserError :: "Decls \<Rightarrow> goerr \<Rightarrow> (goerr \<times> string) option" where
  "errors_As_UserError D (UserError e hint) = Some (e, hint)"
| "errors_As_UserError D (WrapError m e) = errors_As_UserError D e"
| "errors_As_UserError D (OktetoCommandErr e stage) =
     (if OktetoCommandErr_Unwrap D then errors_As_UserError D e else None)"
| "errors_As_UserError D (ErrorString m) = None"
| "errors_As_UserError D ErrNotExist = None"

fun errors_Is_ErrNotExist :: "Decls \<Rightarrow> goerr \<Rightarrow> bool" where
  "errors_Is_ErrNotExist D ErrNotExist = True"
| "errors_Is_ErrNotExist D (WrapError m e) = errors_Is_ErrNotExist D e"
| "errors_Is_ErrNotExist D (UserError e hint) =
     (if UserError_Unwrap D then errors_Is_ErrNotExist D e else False)"
| "errors_Is_ErrNotExist D (OktetoCommandErr e stage) =
     (if OktetoCommandErr_Unwrap D then errors_Is_ErrNotExist D e else False)"
| "errors_Is_ErrNotExist D (ErrorString m) = False"

text \<open>The method \<^verbatim>\<open>Error()\<close>.\<close>

fun Error :: "Decls \<Rightarrow> goerr \<Rightarrow> string" where
  "Error D (ErrorString m) = m"
| "Error D ErrNotExist = ''file does not exist''"
| "Error D (WrapError m e) = m"
| "Error D (OktetoCommandErr e stage) = OktetoCommandErr_Error D (Error D e) stage"
| "Error D (UserError e hint) = UserError_Error D (Error D e) hint"

text \<open>\<^verbatim>\<open>fmt.Errorf(format, err)\<close>: the error wraps \<open>err\<close> when the format has the verb \<^verbatim>\<open>%w\<close>.\<close>

fun hasVerbW :: "string \<Rightarrow> bool" where
  "hasVerbW (c # d # cs) = ((c = CHR ''%'' \<and> d = CHR ''w'') \<or> hasVerbW (d # cs))"
| "hasVerbW cs = False"

definition Errorf :: "Decls \<Rightarrow> string \<Rightarrow> goerr \<Rightarrow> goerr" where
  "Errorf D format err =
     (if hasVerbW format then WrapError (Sprintf format [Error D err]) err
      else ErrorString (Sprintf format [Error D err]))"

subsection \<open>Options and the destroy flags\<close>

text \<open>The fields of \<^verbatim>\<open>Options\<close> that \<^verbatim>\<open>remote.go\<close> reads.\<close>

record Options =
  Name :: string
  Namespace :: string
  ManifestPathFlag :: string
  DestroyVolumes :: bool
  ForceDestroy :: bool

text \<open>\<^verbatim>\<open>getDestroyFlags\<close> (remote.go, lines 267-291): one \<^verbatim>\<open>append\<close> per guarded field.\<close>

definition getDestroyFlags :: "Options \<Rightarrow> string list" where
  \<open>getDestroyFlags opts =
     (let deployFlags = [];
          deployFlags = (if Name opts \<noteq> [] then deployFlags @ [Sprintf ''--name "%s"'' [Name opts]]
                         else deployFlags);
          deployFlags = (if Namespace opts \<noteq> [] then deployFlags @ [Sprintf ''--namespace %s'' [Namespace opts]]
                         else deployFlags);
          deployFlags = (if ManifestPathFlag opts \<noteq> [] then deployFlags @ [Sprintf ''--file %s'' [ManifestPathFlag opts]]
                         else deployFlags);
          deployFlags = (if DestroyVolumes opts then deployFlags @ [''--volumes''] else deployFlags);
          deployFlags = (if ForceDestroy opts then deployFlags @ [''--force-destroy''] else deployFlags)
      in deployFlags)\<close>

subsection \<open>The image of the okteto CLI\<close>

text \<open>
  \<^verbatim>\<open>regexp.MatchString(`\d+\.\d+\.\d+`, s)\<close> reports whether \<open>s\<close> contains a match of the pattern.
  \<open>matchHere\<close> matches the pattern at the start of its argument: a run of digits that ends at a
  dot, twice, and a digit. A run of digits is followed by a dot only if it is taken whole, so
  no backtracking is needed.
\<close>

definition isDigit :: "char \<Rightarrow> bool" where
  "isDigit c = (c \<in> set ''0123456789'')"

definition digitsThenDot :: "string \<Rightarrow> string option" where
  "digitsThenDot s =
     (case dropWhile isDigit s of
        [] \<Rightarrow> None
      | c # rest \<Rightarrow> if c = CHR ''.'' \<and> takeWhile isDigit s \<noteq> [] then Some rest else None)"

definition matchHere :: "string \<Rightarrow> bool" where
  "matchHere s =
     (case digitsThenDot s of
        None \<Rightarrow> False
      | Some r1 \<Rightarrow>
          (case digitsThenDot r1 of
             None \<Rightarrow> False
           | Some r2 \<Rightarrow> (case r2 of [] \<Rightarrow> False | c # _ \<Rightarrow> isDigit c)))"

fun MatchString_version :: "string \<Rightarrow> bool" where
  "MatchString_version [] = False"
| "MatchString_version (c # cs) = (matchHere (c # cs) \<or> MatchString_version cs)"

text \<open>\<^verbatim>\<open>getOktetoCLIVersion\<close> (lines 293-307); \<open>getenv\<close> is \<^verbatim>\<open>os.Getenv\<close>.\<close>

definition getOktetoCLIVersion :: "Decls \<Rightarrow> (string \<Rightarrow> string) \<Rightarrow> string \<Rightarrow> string" where
  "getOktetoCLIVersion D getenv versionString =
     (if MatchString_version versionString then
        Sprintf (OktetoCLIImageForRemoteTemplate D) [versionString]
      else
        (let remoteOktetoImage = getenv (OKtetoDeployRemoteImage D) in
         if remoteOktetoImage \<noteq> [] then remoteOktetoImage
         else Sprintf (OktetoCLIImageForRemoteTemplate D) [''latest'']))"

subsection \<open>The Dockerfile template\<close>

text \<open>
  \<^verbatim>\<open>tmpl.Execute\<close> on \<^verbatim>\<open>dockerfileTemplate\<close> (lines 36-73): the text of the template, one row
  per line of the constant, with every action replaced by what it prints. The template starts
  with a line feed; the body of the \<^verbatim>\<open>range\<close> and of each \<^verbatim>\<open>if\<close> starts and ends with one.
\<close>

definition Execute_dockerfileTemplate :: "dockerfileTemplateProperties \<Rightarrow> string" where
  \<open>Execute_dockerfileTemplate p = concat
     [NL,
      ''FROM '', OktetoCLIImage p, '' as okteto-cli'', NL,
      NL,
      ''FROM '', InstallerImage p, '' as installer'', NL,
      NL,
      ''FROM alpine as certs'', NL,
      ''RUN apk update && apk add ca-certificates'', NL,
      NL,
      ''FROM '', UserDestroyImage p, '' as deploy'', NL,
      NL,
      ''ENV PATH="${PATH}:/okteto/bin"'', NL,
      ''COPY --from=certs /etc/ssl/certs /etc/ssl/certs'', NL,
      ''COPY --from=installer /app/bin/* /okteto/bin/'', NL,
      ''COPY --from=okteto-cli /usr/local/bin/* /okteto/bin/'', NL,
      NL,
      concat (map (\<lambda>(key, val). concat [NL, ''ENV '', key, '' '', val, NL]) (OktetoBuildEnvVars p)),
      NL,
      ''ENV '', NamespaceEnvVar p, '' '', NamespaceValue p, NL,
      ''ENV '', ContextEnvVar p, '' '', ContextValue p, NL,
      ''ENV '', TokenEnvVar p, '' '', TokenValue p, NL,
      ''ENV '', RemoteDeployEnvVar p, '' true'', NL,
      (if ActionNameValue p \<noteq> [] then concat [NL, ''ENV '', ActionNameEnvVar p, '' '', ActionNameValue p, NL]
       else []),
      NL,
      (if GitCommitValue p \<noteq> [] then concat [NL, ''ENV '', GitCommitEnvVar p, '' '', GitCommitValue p, NL]
       else []),
      NL,
      NL,
      ''COPY . /okteto/src'', NL,
      ''WORKDIR /okteto/src'', NL,
      NL,
      ''ENV OKTETO_INVALIDATE_CACHE '', Itoa (RandomInt p), NL,
      ''ARG OKTETO_TLS_CERT_BASE64'', NL,
      ''ARG INTERNAL_SERVER_NAME=""'', NL,
      ''RUN echo "$OKTETO_TLS_CERT_BASE64" | base64 -d > /etc/ssl/certs/okteto.crt'', NL,
      ''RUN okteto destroy --log-output=json --server-name="$INTERNAL_SERVER_NAME" '', DestroyFlags p, NL]\<close>

text \<open>The lines of a text: the segments between line feeds.\<close>

fun linesFrom :: "string \<Rightarrow> string \<Rightarrow> string list" where
  "linesFrom cur [] = [cur]"
| "linesFrom cur (c # cs) =
     (if c = CHR 0x0A then cur # linesFrom [] cs else linesFrom (cur @ [c]) cs)"

definition textLines :: "string \<Rightarrow> string list" where
  "textLines s = linesFrom [] s"

text \<open>The \<^verbatim>\<open>ENV\<close> lines of a Dockerfile that set the variable \<open>key\<close>.\<close>

definition envLines :: "string \<Rightarrow> string \<Rightarrow> string list" where
  "envLines key text = filter (prefix (''ENV '' @ key @ '' '')) (textLines text)"

subsection \<open>Cluster metadata\<close>

text \<open>
  The okteto API as \<^verbatim>\<open>fetchClusterMetadata\<close> calls it: what \<^verbatim>\<open>Provide\<close> returns as error, and the
  results of \<^verbatim>\<open>GetClusterMetadata(ctx, namespace)\<close> and of
  \<^verbatim>\<open>GetClusterCertificate(ctx, name, namespace)\<close>, which returns a certificate and an error.
\<close>

record OktetoClient =
  Provide :: "goerr option"
  GetClusterMetadata :: "string \<Rightarrow> goerr + ClusterMetadata"
  GetClusterCertificate :: "string \<Rightarrow> string \<Rightarrow> string option \<times> goerr option"

datatype apicall =
    ProvideCall
  | GetClusterMetadataCall string
  | GetClusterCertificateCall string string

text \<open>
  \<^verbatim>\<open>fetchClusterMetadata\<close> (lines 309-327) returns a pointer and an error, here a pair of options,
  and the calls it made to the API, in order.
\<close>

definition fetchClusterMetadata ::
  "Decls \<Rightarrow> OktetoClient \<Rightarrow> OktetoContext \<Rightarrow> (ClusterMetadata option \<times> goerr option) \<times> apicall list" where
  "fetchClusterMetadata D api ctx =
     (case Provide api of
        Some err \<Rightarrow>
          ((None, Some (Errorf D ''failed to provide okteto client for fetching certs: %s'' err)),
           [ProvideCall])
      | None \<Rightarrow>
          (case GetClusterMetadata api (CtxNamespace ctx) of
             Inl err \<Rightarrow> ((None, Some err), [ProvideCall, GetClusterMetadataCall (CtxNamespace ctx)])
           | Inr metadata \<Rightarrow>
               if Certificate metadata = None then
                 (case GetClusterCertificate api (CtxName ctx) (CtxNamespace ctx) of
                    (cert, err) \<Rightarrow>
                      ((Some (metadata\<lparr>Certificate := cert\<rparr>), err),
                       [ProvideCall, GetClusterMetadataCall (CtxNamespace ctx),
                        GetClusterCertificateCall (CtxName ctx) (CtxNamespace ctx)]))
               else ((Some metadata, None), [ProvideCall, GetClusterMetadataCall (CtxNamespace ctx)])))"

subsection \<open>The world of a run\<close>

text \<open>
  The calls \<^verbatim>\<open>destroy\<close> makes to what it is given or finds in the process: the metadata function,
  the working directory controller, the temporal directory controller, \<^verbatim>\<open>crypto/rand\<close>, the file
  system, the template writer and the builder.
\<close>

datatype call =
    ClusterMetadataCall
  | WdGet
  | WdChange string
  | TemporalCreate
  | RandInt
  | FsCreate string
  | FsStat string
  | FsReadFile string
  | FsWriteFile string string
  | FsRemove string
  | TemplateExecute string
  | BuilderBuild BuildOptions

text \<open>
  The state a run reads and writes: the files (path to content), the working directory of the
  process, the environment (an unset variable reads as the empty string), the okteto context,
  the stage, the buffer and the info lines of \<^verbatim>\<open>oktetoLog\<close> (a line is kept as its format
  and its operand), the bytes \<^verbatim>\<open>rand.Reader\<close> will yield before it ends,
  and the calls made so far, each with the error it returned, if any.
\<close>

record world =
  files :: "string \<rightharpoonup> string"
  workdir :: string
  environ :: "string \<Rightarrow> string"
  okctx :: OktetoContext
  logStage :: string
  logBuffer :: "(string \<times> string) list"
  logInfo :: "(string \<times> goerr) list"
  randReader :: string
  calls :: "(call \<times> goerr option) list"

text \<open>
  The collaborators of \<^verbatim>\<open>remoteDestroyCommand\<close> that are behind an interface with no behaviour
  of its own here (\<^verbatim>\<open>clusterMetadata\<close>, \<^verbatim>\<open>temporalCtrl.Create\<close>, \<^verbatim>\<open>builder.Build\<close>) are any functions
  on the world. The working directory controller, the file system and \<^verbatim>\<open>rand.Int\<close> behave as the
  operating system's do, and \<open>fault\<close> says which of their calls fail, and with which error, in
  a given world; a call that \<open>fault\<close> makes fail changes nothing.
\<close>

record Collaborators =
  clusterMetadata :: "world \<Rightarrow> (goerr + ClusterMetadata) \<times> world"
  temporalCtrl_Create :: "world \<Rightarrow> (goerr + string) \<times> world"
  builder_Build :: "BuildOptions \<Rightarrow> world \<Rightarrow> goerr option \<times> world"
  fault :: "call \<Rightarrow> world \<Rightarrow> goerr option"

definition logCall :: "call \<Rightarrow> goerr option \<Rightarrow> world \<Rightarrow> world" where
  "logCall cl err w = w\<lparr>calls := calls w @ [(cl, err)]\<rparr>"

text \<open>A call to a collaborator that is any function: the call is recorded after the calls
  made before it, whatever the collaborator does to the world.\<close>

definition invoke ::
  "call \<Rightarrow> ('r \<Rightarrow> goerr option) \<Rightarrow> (world \<Rightarrow> 'r \<times> world) \<Rightarrow> world \<Rightarrow> 'r \<times> world" where
  "invoke cl errOf f w = (case f w of (r, w') \<Rightarrow> (r, w'\<lparr>calls := calls w @ [(cl, errOf r)]\<rparr>))"

definition leftError :: "goerr + 'a \<Rightarrow> goerr option" where
  "leftError r = (case r of Inl err \<Rightarrow> Some err | Inr v \<Rightarrow> None)"

definition notExist :: "string \<Rightarrow> string \<Rightarrow> goerr" where
  "notExist op name = WrapError (op @ '' '' @ name @ '': file does not exist'') ErrNotExist"

definition wd_Get :: "Collaborators \<Rightarrow> world \<Rightarrow> (goerr + string) \<times> world" where
  "wd_Get c w =
     (case fault c WdGet w of
        Some err \<Rightarrow> (Inl err, logCall WdGet (Some err) w)
      | None \<Rightarrow> (Inr (workdir w), logCall WdGet None w))"

definition wd_Change :: "Collaborators \<Rightarrow> string \<Rightarrow> world \<Rightarrow> goerr option \<times> world" where
  "wd_Change c dir w =
     (case fault c (WdChange dir) w of
        Some err \<Rightarrow> (Some err, logCall (WdChange dir) (Some err) w)
      | None \<Rightarrow> (None, logCall (WdChange dir) None (w\<lparr>workdir := dir\<rparr>)))"

text \<open>
  \<^verbatim>\<open>rand.Int(rand, max)\<close> of \<^verbatim>\<open>crypto/rand\<close>, on the bytes the reader yields; it returns its result and
  the bytes the reader has left. With \<open>bitLen\<close> the number of bits of \<open>max - 1\<close>, it reads
  \<open>k = (bitLen + 7) / 8\<close> bytes with \<^verbatim>\<open>io.ReadFull\<close>, keeps the low \<open>b\<close> bits of the first byte
  (\<open>b\<close> is \<open>bitLen % 8\<close>, or 8), reads the bytes as a big-endian number (\<^verbatim>\<open>SetBytes\<close>) and returns the
  number when it is below \<open>max\<close>; otherwise it reads the next \<open>k\<close> bytes, and so on. \<^verbatim>\<open>io.ReadFull\<close>
  fails with \<^verbatim>\<open>io.EOF\<close> when the reader has no byte left and with \<^verbatim>\<open>io.ErrUnexpectedEOF\<close> when it
  has fewer than \<open>k\<close>: the reader here has finitely many bytes, so the loop ends. For a bound
  that is not positive \<^verbatim>\<open>rand.Int\<close> panics, which is the first branch; the file calls it with 1000.
\<close>

fun BitLen :: "nat \<Rightarrow> nat" where
  "BitLen n = (if n = 0 then 0 else Suc (BitLen (n div 2)))"

declare BitLen.simps [simp del]

definition SetBytes :: "nat list \<Rightarrow> nat" where
  "SetBytes buf = foldl (\<lambda>n b. n * 256 + b) 0 buf"

function rand_Int_from :: "nat \<Rightarrow> string \<Rightarrow> (goerr + nat) \<times> string" where
  "rand_Int_from bound bytes =
     (if bound = 0 then (Inl (ErrorString ''crypto/rand: argument to Int is <= 0''), bytes)
      else if BitLen (bound - 1) = 0 then (Inr 0, bytes)
      else
        (let bitLen = BitLen (bound - 1);
             k = (bitLen + 7) div 8;
             b = (if bitLen mod 8 = 0 then 8 else bitLen mod 8)
         in if bytes = [] then (Inl (ErrorString ''EOF''), [])
            else if length bytes < k then (Inl (ErrorString ''unexpected EOF''), [])
            else
              (let buf = map of_char (take k bytes);
                   n = SetBytes ((hd buf mod 2 ^ b) # tl buf)
               in if n < bound then (Inr n, drop k bytes) else rand_Int_from bound (drop k bytes))))"
  by pat_completeness auto

termination
proof (relation "measure (\<lambda>(bound, bytes). length bytes)")
  fix bound :: nat and bytes :: string and bitLen k :: nat
  assume "BitLen (bound - 1) \<noteq> 0" "bitLen = BitLen (bound - 1)" "k = (bitLen + 7) div 8"
    "bytes \<noteq> []"
  then have "0 < k" "0 < length bytes" by simp_all
  then show "((bound, drop k bytes), (bound, bytes)) \<in> measure (\<lambda>(bound, bytes). length bytes)"
    by simp
qed simp

declare rand_Int_from.simps [simp del]

text \<open>\<^verbatim>\<open>rand.Int(rand.Reader, bound)\<close> in the world: the reader moves on by the bytes read.\<close>

definition rand_Int :: "Collaborators \<Rightarrow> nat \<Rightarrow> world \<Rightarrow> (goerr + nat) \<times> world" where
  "rand_Int c bound w =
     (case fault c RandInt w of
        Some err \<Rightarrow> (Inl err, logCall RandInt (Some err) w)
      | None \<Rightarrow>
          (case rand_Int_from bound (randReader w) of
             (r, rest) \<Rightarrow> (r, logCall RandInt (leftError r) (w\<lparr>randReader := rest\<rparr>))))"

text \<open>Bytes that \<^verbatim>\<open>rand.Int\<close> with the bound 1000 reads and drops: pairs of bytes whose number of
  ten bits is 1000 or more.\<close>

fun redrawn :: "string \<Rightarrow> bool" where
  "redrawn [] = True"
| "redrawn [a] = False"
| "redrawn (a # b # bytes) = (1000 \<le> (of_char a mod 4 * 256 + of_char b :: nat) \<and> redrawn bytes)"

text \<open>\<^verbatim>\<open>fs.Create\<close>: the file is created or truncated; the file returned is known by its name.\<close>

definition fs_Create :: "Collaborators \<Rightarrow> string \<Rightarrow> world \<Rightarrow> (goerr + string) \<times> world" where
  "fs_Create c name w =
     (case fault c (FsCreate name) w of
        Some err \<Rightarrow> (Inl err, logCall (FsCreate name) (Some err) w)
      | None \<Rightarrow> (Inr name, logCall (FsCreate name) None (w\<lparr>files := (files w)(name \<mapsto> [])\<rparr>)))"

definition fs_Stat :: "Collaborators \<Rightarrow> string \<Rightarrow> world \<Rightarrow> goerr option \<times> world" where
  "fs_Stat c name w =
     (case fault c (FsStat name) w of
        Some err \<Rightarrow> (Some err, logCall (FsStat name) (Some err) w)
      | None \<Rightarrow>
          (case files w name of
             None \<Rightarrow> (Some (notExist ''stat'' name), logCall (FsStat name) (Some (notExist ''stat'' name)) w)
           | Some content \<Rightarrow> (None, logCall (FsStat name) None w)))"

definition afero_ReadFile :: "Collaborators \<Rightarrow> string \<Rightarrow> world \<Rightarrow> (goerr + string) \<times> world" where
  "afero_ReadFile c name w =
     (case fault c (FsReadFile name) w of
        Some err \<Rightarrow> (Inl err, logCall (FsReadFile name) (Some err) w)
      | None \<Rightarrow>
          (case files w name of
             None \<Rightarrow> (Inl (notExist ''open'' name), logCall (FsReadFile name) (Some (notExist ''open'' name)) w)
           | Some content \<Rightarrow> (Inr content, logCall (FsReadFile name) None w)))"

definition afero_WriteFile :: "Collaborators \<Rightarrow> string \<Rightarrow> string \<Rightarrow> world \<Rightarrow> goerr option \<times> world" where
  "afero_WriteFile c name content w =
     (case fault c (FsWriteFile name content) w of
        Some err \<Rightarrow> (Some err, logCall (FsWriteFile name content) (Some err) w)
      | None \<Rightarrow>
          (None, logCall (FsWriteFile name content) None (w\<lparr>files := (files w)(name \<mapsto> content)\<rparr>)))"

definition fs_Remove :: "Collaborators \<Rightarrow> string \<Rightarrow> world \<Rightarrow> goerr option \<times> world" where
  "fs_Remove c name w =
     (case fault c (FsRemove name) w of
        Some err \<Rightarrow> (Some err, logCall (FsRemove name) (Some err) w)
      | None \<Rightarrow>
          (case files w name of
             None \<Rightarrow> (Some (notExist ''remove'' name), logCall (FsRemove name) (Some (notExist ''remove'' name)) w)
           | Some content \<Rightarrow> (None, logCall (FsRemove name) None (w\<lparr>files := (files w)(name := None)\<rparr>))))"

text \<open>\<^verbatim>\<open>tmpl.Execute(dockerfile, dockerfileSyntax)\<close>: the writer is the file just created, which
  then holds the rendered text.\<close>

definition tmpl_Execute ::
  "Collaborators \<Rightarrow> string \<Rightarrow> dockerfileTemplateProperties \<Rightarrow> world \<Rightarrow> goerr option \<times> world" where
  "tmpl_Execute c dockerfile dockerfileSyntax w =
     (case fault c (TemplateExecute dockerfile) w of
        Some err \<Rightarrow> (Some err, logCall (TemplateExecute dockerfile) (Some err) w)
      | None \<Rightarrow>
          (None, logCall (TemplateExecute dockerfile) None
             (w\<lparr>files := (files w)(dockerfile \<mapsto> Execute_dockerfileTemplate dockerfileSyntax)\<rparr>)))"

text \<open>\<^verbatim>\<open>oktetoLog.SetStage\<close>, \<^verbatim>\<open>oktetoLog.AddToBuffer\<close> and \<^verbatim>\<open>oktetoLog.Infof\<close>.\<close>

definition SetStage :: "string \<Rightarrow> world \<Rightarrow> world" where
  "SetStage stage w = w\<lparr>logStage := stage\<rparr>"

definition AddToBuffer :: "string \<Rightarrow> string \<Rightarrow> world \<Rightarrow> world" where
  "AddToBuffer level msg w = w\<lparr>logBuffer := logBuffer w @ [(level, msg)]\<rparr>"

definition Infof :: "string \<Rightarrow> goerr \<Rightarrow> world \<Rightarrow> world" where
  "Infof format err w = w\<lparr>logInfo := logInfo w @ [(format, err)]\<rparr>"

subsection \<open>Staging the build context\<close>

text \<open>\<^verbatim>\<open>createDockerignoreIfNeeded\<close> (lines 246-265).\<close>

definition createDockerignoreIfNeeded ::
  "Decls \<Rightarrow> Collaborators \<Rightarrow> string \<Rightarrow> string \<Rightarrow> world \<Rightarrow> goerr option \<times> world" where
  "createDockerignoreIfNeeded D c cwd tmpDir w =
     (let dockerignoreFilePath = Sprintf ''%s/%s'' [cwd, ''.oktetodeployignore''] in
      case fs_Stat c dockerignoreFilePath w of
        (Some err, w1) \<Rightarrow>
          if \<not> errors_Is_ErrNotExist D err then (Some err, w1) else (None, w1)
      | (None, w1) \<Rightarrow>
          (case afero_ReadFile c dockerignoreFilePath w1 of
             (Inl err, w2) \<Rightarrow> (Some err, w2)
           | (Inr dockerignoreContent, w2) \<Rightarrow>
               (case afero_WriteFile c (Sprintf ''%s/%s'' [tmpDir, ''.dockerignore'']) dockerignoreContent w2 of
                  (Some err, w3) \<Rightarrow> (Some err, w3)
                | (None, w3) \<Rightarrow> (None, w3))))"

text \<open>The value \<^verbatim>\<open>dockerfileSyntax\<close> that \<^verbatim>\<open>createDockerfile\<close> builds (lines 210-227); the fields
  the literal leaves out are empty.\<close>

definition dockerfileSyntax ::
  "Decls \<Rightarrow> remoteDestroyCommand \<Rightarrow> Options \<Rightarrow> string \<Rightarrow> nat \<Rightarrow> world \<Rightarrow> dockerfileTemplateProperties" where
  "dockerfileSyntax D rd opts installerImage randomNumber w =
     \<lparr>OktetoCLIImage = getOktetoCLIVersion D (environ w) (VersionString D),
      UserDestroyImage = destroyImage rd,
      InstallerImage = installerImage,
      OktetoBuildEnvVars = [],
      ContextEnvVar = OktetoContextEnvVar D,
      ContextValue = CtxName (okctx w),
      NamespaceEnvVar = OktetoNamespaceEnvVar D,
      NamespaceValue = CtxNamespace (okctx w),
      TokenEnvVar = OktetoTokenEnvVar D,
      TokenValue = CtxToken (okctx w),
      ActionNameEnvVar = OktetoActionNameEnvVar D,
      ActionNameValue = environ w (OktetoActionNameEnvVar D),
      GitCommitEnvVar = OktetoGitCommitEnvVar D,
      GitCommitValue = environ w (OktetoGitCommitEnvVar D),
      RemoteDeployEnvVar = OKtetoDeployRemote D,
      DeployFlags = [],
      RandomInt = int randomNumber,
      DestroyFlags = Join (getDestroyFlags opts) '' ''\<rparr>"

text \<open>\<^verbatim>\<open>createDockerfile\<close> (lines 198-244).\<close>

definition createDockerfile ::
  "Decls \<Rightarrow> Collaborators \<Rightarrow> remoteDestroyCommand \<Rightarrow> string \<Rightarrow> Options \<Rightarrow> string \<Rightarrow> world
     \<Rightarrow> (goerr + string) \<times> world" where
  "createDockerfile D c rd tempDir opts installerImage w =
     (case wd_Get c w of
        (Inl err, w1) \<Rightarrow> (Inl err, w1)
      | (Inr cwd, w1) \<Rightarrow>
     (case rand_Int c 1000 w1 of
        (Inl err, w2) \<Rightarrow> (Inl err, w2)
      | (Inr randomNumber, w2) \<Rightarrow>
     (let syntax = dockerfileSyntax D rd opts installerImage randomNumber w2 in
      case fs_Create c (filepath_Join D tempDir ''deploy'') w2 of
        (Inl err, w3) \<Rightarrow> (Inl err, w3)
      | (Inr dockerfile, w3) \<Rightarrow>
     (case createDockerignoreIfNeeded D c cwd tempDir w3 of
        (Some err, w4) \<Rightarrow> (Inl err, w4)
      | (None, w4) \<Rightarrow>
     (case tmpl_Execute c dockerfile syntax w4 of
        (Some err, w5) \<Rightarrow> (Inl err, w5)
      | (None, w5) \<Rightarrow> (Inr dockerfile, w5))))))"

subsection \<open>The destroy command\<close>

text \<open>The classification of the builder's error (lines 176-190): the error \<^verbatim>\<open>destroy\<close> returns, and
  the stage it sets.\<close>

definition handleBuildError :: "Decls \<Rightarrow> goerr \<Rightarrow> world \<Rightarrow> goerr \<times> world" where
  "handleBuildError D err w =
     (case errors_As_OktetoCommandErr D err of
        Some (cmdErr_Err, cmdErr_Stage) \<Rightarrow>
          (UserError (Errorf D ''error during development environment deployment: %w'' cmdErr_Err) [],
           SetStage cmdErr_Stage w)
      | None \<Rightarrow>
          (let w1 = SetStage ''remote deploy'' w in
           case errors_As_UserError D err of
             Some (e, hint) \<Rightarrow> (UserError e hint, w1)
           | None \<Rightarrow>
               (UserError (Errorf D ''error during destroy of the development environment: %w'' err) [],
                w1)))"

text \<open>The build request (lines 154-169).\<close>

definition buildRequest ::
  "Decls \<Rightarrow> remoteDestroyCommand \<Rightarrow> ClusterMetadata \<Rightarrow> string \<Rightarrow> string \<Rightarrow> BuildOptions" where
  "buildRequest D rd sc cwd dockerfile =
     (let buildInfo = \<lparr>Dockerfile = dockerfile\<rparr>;
          buildOptions = OptsFromBuildInfoForRemoteDeploy D buildInfo
            \<lparr>Path = cwd, OutputMode = ''destroy'', File = [], BuildArgs = [], Manifest = None\<rparr>;
          buildOptions = buildOptions\<lparr>Manifest := Some (manifest rd)\<rparr>;
          buildOptions = buildOptions\<lparr>BuildArgs := BuildArgs buildOptions @
            [Sprintf ''OKTETO_TLS_CERT_BASE64=%s''
               [base64_EncodeToString (case Certificate sc of None \<Rightarrow> [] | Some cert \<Rightarrow> cert)],
             Sprintf ''INTERNAL_SERVER_NAME=%s'' [ServerName sc]]\<rparr>
      in buildOptions)"

text \<open>What \<^verbatim>\<open>destroy\<close> does once the removal of the Dockerfile is deferred (lines 154-195).\<close>

definition restoreAndBuild ::
  "Decls \<Rightarrow> Collaborators \<Rightarrow> remoteDestroyCommand \<Rightarrow> ClusterMetadata \<Rightarrow> string \<Rightarrow> string \<Rightarrow> world
     \<Rightarrow> goerr option \<times> world" where
  "restoreAndBuild D c rd sc cwd dockerfile w =
     (case wd_Change c cwd w of
        (Some err, w1) \<Rightarrow> (Some err, w1)
      | (None, w1) \<Rightarrow>
          (let buildOptions = buildRequest D rd sc cwd dockerfile in
           case invoke (BuilderBuild buildOptions) (\<lambda>r. r) (builder_Build c buildOptions) w1 of
             (Some err, w2) \<Rightarrow> (case handleBuildError D err w2 of (e, w3) \<Rightarrow> (Some e, w3))
           | (None, w2) \<Rightarrow> (None, AddToBuffer ''info'' ''EOF'' (SetStage ''done'' w2))))"

text \<open>The deferred function (lines 148-152).\<close>

definition deferredRemove :: "Collaborators \<Rightarrow> string \<Rightarrow> world \<Rightarrow> world" where
  "deferredRemove c dockerfile w =
     (case fs_Remove c dockerfile w of
        (Some err, w1) \<Rightarrow> Infof ''error removing dockerfile: %w'' err w1
      | (None, w1) \<Rightarrow> w1)"

text \<open>\<^verbatim>\<open>destroy\<close> (lines 123-196) returns its error, the command (whose image it may set) and the
  world it leaves.\<close>

definition destroy ::
  "Decls \<Rightarrow> Collaborators \<Rightarrow> remoteDestroyCommand \<Rightarrow> Options \<Rightarrow> world
     \<Rightarrow> goerr option \<times> remoteDestroyCommand \<times> world" where
  "destroy D c rd0 opts w =
     (case invoke ClusterMetadataCall leftError (clusterMetadata c) w of
        (Inl err, w1) \<Rightarrow> (Some err, rd0, w1)
      | (Inr sc, w1) \<Rightarrow>
     (let rd = (if destroyImage rd0 = [] then rd0\<lparr>destroyImage := PipelineRunnerImage sc\<rparr> else rd0) in
      case wd_Get c w1 of
        (Inl err, w2) \<Rightarrow> (Some err, rd, w2)
      | (Inr cwd, w2) \<Rightarrow>
     (case invoke TemporalCreate leftError (temporalCtrl_Create c) w2 of
        (Inl err, w3) \<Rightarrow> (Some err, rd, w3)
      | (Inr tmpDir, w3) \<Rightarrow>
     (case createDockerfile D c rd tmpDir opts (PipelineInstallerImage sc) w3 of
        (Inl err, w4) \<Rightarrow> (Some err, rd, w4)
      | (Inr dockerfile, w4) \<Rightarrow>
     (case restoreAndBuild D c rd sc cwd dockerfile w4 of
        (res, w5) \<Rightarrow> (res, rd, deferredRemove c dockerfile w5))))))"

text \<open>The calls a run adds to those made before it, and the calls \<^verbatim>\<open>destroy\<close> makes before it
  restores the working directory: all but the change of directory, the build and the removal.\<close>

definition newCalls :: "world \<Rightarrow> world \<Rightarrow> (call \<times> goerr option) list" where
  "newCalls w w' = drop (length (calls w)) (calls w')"

definition early :: "call \<Rightarrow> bool" where
  "early cl =
     (case cl of WdChange dir \<Rightarrow> False | BuilderBuild buildOptions \<Rightarrow> False | FsRemove name \<Rightarrow> False
      | _ \<Rightarrow> True)"

subsection \<open>The shell that runs the destroy command\<close>


definition isBlank :: "char \<Rightarrow> bool" where
  "isBlank c = (c = CHR '' '' \<or> c = CHR 0x09)"









definition nonBlanks :: "string \<Rightarrow> nat" where
  "nonBlanks s = length (filter (\<lambda>c. \<not> isBlank c) s)"



subsection \<open>Instances for evaluation\<close>

text \<open>
  One instance of the declarations outside the file, of the collaborators (none fails, the
  cluster has a certificate, the build succeeds) and of the world, on which the model is
  evaluated below.
\<close>

definition exampleDecls :: Decls where
  "exampleDecls =
     \<lparr>OktetoCLIImageForRemoteTemplate = ''okteto/okteto:%s'',
      OKtetoDeployRemoteImage = ''OKTETO_REMOTE_CLI_IMAGE'',
      OKtetoDeployRemote = ''OKTETO_DEPLOY_REMOTE'',
      OktetoGitCommitEnvVar = ''OKTETO_GIT_COMMIT'',
      OktetoContextEnvVar = ''OKTETO_CONTEXT'',
      OktetoNamespaceEnvVar = ''OKTETO_NAMESPACE'',
      OktetoTokenEnvVar = ''OKTETO_TOKEN'',
      OktetoActionNameEnvVar = ''OKTETO_ACTION_NAME'',
      VersionString = ''1.2.3'',
      UserError_Unwrap = False,
      OktetoCommandErr_Unwrap = False,
      UserError_Error = (\<lambda>e hint. e),
      OktetoCommandErr_Error = (\<lambda>e stage. e),
      OptsFromBuildInfoForRemoteDeploy = OptsFromBuildInfoForRemoteDeploy_spec,
      filepath_Join = (\<lambda>dir name. dir @ ''/'' @ name)\<rparr>"

definition exampleMetadata :: ClusterMetadata where
  "exampleMetadata =
     \<lparr>Certificate = Some ''cert'', ServerName = ''internal.example'',
      PipelineRunnerImage = ''okteto/pipeline-runner:1.0.0'',
      PipelineInstallerImage = ''okteto/installer:1.0.0''\<rparr>"

definition exampleCollaborators :: Collaborators where
  "exampleCollaborators =
     \<lparr>clusterMetadata = (\<lambda>w. (Inr exampleMetadata, w)),
      temporalCtrl_Create = (\<lambda>w. (Inr ''/tmp/okteto'', w)),
      builder_Build = (\<lambda>buildOptions w. (None, w)),
      fault = (\<lambda>cl w. None)\<rparr>"

definition exampleWorld :: world where
  "exampleWorld =
     \<lparr>files = [''/work/.oktetodeployignore'' \<mapsto> ''node_modules''],
      workdir = ''/work'',
      environ = (\<lambda>name. []),
      okctx = \<lparr>CtxName = ''https://cloud.example'', CtxNamespace = ''ns1'', CtxToken = ''t0k3n''\<rparr>,
      logStage = [],
      logBuffer = [],
      logInfo = [],
      randReader = [CHR 0x00, CHR 0x07, CHR 0x00, CHR 0x07],
      calls = []\<rparr>"

definition exampleCommand :: remoteDestroyCommand where
  "exampleCommand = \<lparr>destroyImage = [], manifest = \<lparr>Destroy_Image = []\<rparr>\<rparr>"

definition exampleOptions :: Options where
  "exampleOptions =
     \<lparr>Name = ''myenv'', Namespace = ''ns1'', ManifestPathFlag = [], DestroyVolumes = True,
      ForceDestroy = False\<rparr>"

definition exampleFailingBuild :: "goerr \<Rightarrow> Collaborators" where
  "exampleFailingBuild err = exampleCollaborators\<lparr>builder_Build := (\<lambda>buildOptions w. (Some err, w))\<rparr>"

definition exampleFaults :: "(call \<Rightarrow> bool) \<Rightarrow> goerr \<Rightarrow> Collaborators" where
  "exampleFaults failing err = exampleCollaborators\<lparr>fault := (\<lambda>cl w. if failing cl then Some err else None)\<rparr>"

text \<open>Collaborators whose temporal directory controller leaves the process in the directory it
  creates, and whose builder fails unless it runs in the directory of its build context.\<close>

definition exampleChdirStaging :: Collaborators where
  "exampleChdirStaging =
     exampleCollaborators
       \<lparr>temporalCtrl_Create := (\<lambda>w. (Inr ''/tmp/okteto'', w\<lparr>workdir := ''/tmp/okteto''\<rparr>)),
        builder_Build := (\<lambda>buildOptions w.
          (if workdir w = Path buildOptions then None else Some (ErrorString ''unable to prepare context''), w))\<rparr>"

definition exampleRequest :: BuildOptions where
  "exampleRequest =
     \<lparr>Path = ''/work'', OutputMode = ''destroy'', File = ''/tmp/okteto/deploy'',
      BuildArgs = [''OKTETO_TLS_CERT_BASE64=Y2VydA=='', ''INTERNAL_SERVER_NAME=internal.example''],
      Manifest = Some \<lparr>Destroy_Image = []\<rparr>\<rparr>"

text \<open>The strings the template puts into the text, and the names of the variables it sets.\<close>

definition interpolated :: "dockerfileTemplateProperties \<Rightarrow> string list" where
  "interpolated p =
     [OktetoCLIImage p, InstallerImage p, UserDestroyImage p, NamespaceEnvVar p, NamespaceValue p,
      ContextEnvVar p, ContextValue p, TokenEnvVar p, TokenValue p, RemoteDeployEnvVar p,
      ActionNameEnvVar p, ActionNameValue p, GitCommitEnvVar p, GitCommitValue p, DestroyFlags p]"

definition envVarNames :: "dockerfileTemplateProperties \<Rightarrow> string list" where
  "envVarNames p =
     [NamespaceEnvVar p, ContextEnvVar p, TokenEnvVar p, RemoteDeployEnvVar p, ActionNameEnvVar p,
      GitCommitEnvVar p]"

definition exampleEnviron :: "(string \<times> string) list \<Rightarrow> world" where
  "exampleEnviron vars =
     exampleWorld\<lparr>environ := (\<lambda>name. case map_of vars name of None \<Rightarrow> [] | Some v \<Rightarrow> v)\<rparr>"

text \<open>Collaborators of which the calls of one kind fail, and the worlds after one and after two
  renderings of the Dockerfile.\<close>

definition isStat :: "call \<Rightarrow> bool" where
  "isStat cl = (case cl of FsStat name \<Rightarrow> True | _ \<Rightarrow> False)"

definition isReadFile :: "call \<Rightarrow> bool" where
  "isReadFile cl = (case cl of FsReadFile name \<Rightarrow> True | _ \<Rightarrow> False)"

definition isWriteFile :: "call \<Rightarrow> bool" where
  "isWriteFile cl = (case cl of FsWriteFile name content \<Rightarrow> True | _ \<Rightarrow> False)"



definition exampleFirstRender :: world where
  "exampleFirstRender =
     snd (createDockerfile exampleDecls exampleCollaborators exampleCommand ''/tmp/okteto'' exampleOptions
            ''okteto/installer:1.0.0'' exampleWorld)"

definition exampleSecondRender :: world where
  "exampleSecondRender =
     snd (createDockerfile exampleDecls exampleCollaborators exampleCommand ''/tmp/okteto'' exampleOptions
            ''okteto/installer:1.0.0'' exampleFirstRender)"

section \<open>Properties\<close>

subsection \<open>The destroy flags\<close>

lemma Sprintf_name: \<open>Sprintf ''--name "%s"'' [n] = ''--name "'' @ n @ ''"''\<close>
  by simp

lemma Sprintf_namespace: "Sprintf ''--namespace %s'' [n] = ''--namespace '' @ n"
  by simp

lemma Sprintf_file: "Sprintf ''--file %s'' [p] = ''--file '' @ p"
  by simp

lemma getDestroyFlags_eq:
  \<open>getDestroyFlags opts =
     (if Name opts = [] then [] else [''--name "'' @ Name opts @ ''"'']) @
     (if Namespace opts = [] then [] else [''--namespace '' @ Namespace opts]) @
     (if ManifestPathFlag opts = [] then [] else [''--file '' @ ManifestPathFlag opts]) @
     (if DestroyVolumes opts then [''--volumes''] else []) @
     (if ForceDestroy opts then [''--force-destroy''] else [])\<close>
  unfolding getDestroyFlags_def Let_def Sprintf_name Sprintf_namespace Sprintf_file
  by simp

text \<open>
  Claim C2. The flag list is the sequence of the five candidate flags, in the order name,
  namespace, manifest path, volumes, force, from which exactly the flags whose field is empty
  (or false) are left out; for the options \<^verbatim>\<open>{Name: "myenv", Namespace: "ns1", DestroyVolumes: true}\<close>
  it is \<^verbatim>\<open>["--name \"myenv\"", "--namespace ns1", "--volumes"]\<close>.
\<close>

theorem getDestroyFlags_fixed_order:
  \<open>getDestroyFlags opts =
     map snd (filter fst
       [(Name opts \<noteq> [], ''--name "'' @ Name opts @ ''"''),
        (Namespace opts \<noteq> [], ''--namespace '' @ Namespace opts),
        (ManifestPathFlag opts \<noteq> [], ''--file '' @ ManifestPathFlag opts),
        (DestroyVolumes opts, ''--volumes''),
        (ForceDestroy opts, ''--force-destroy'')])
   \<and> getDestroyFlags \<lparr>Name = ''myenv'', Namespace = ''ns1'', ManifestPathFlag = [],
                        DestroyVolumes = True, ForceDestroy = False\<rparr>
       = [''--name "myenv"'', ''--namespace ns1'', ''--volumes'']\<close>
  unfolding getDestroyFlags_eq by simp

subsection \<open>The image of the okteto CLI\<close>

lemma dot_not_digit: "\<not> isDigit CHR ''.''"
  by (simp add: isDigit_def)

lemma digitsThenDot_append:
  assumes "a \<noteq> []" "list_all isDigit a"
  shows "digitsThenDot (a @ CHR ''.'' # r) = Some r"
proof -
  have "\<forall>x\<in>set a. isDigit x" using assms(2) by (simp add: list_all_iff)
  then have "dropWhile isDigit (a @ CHR ''.'' # r) = CHR ''.'' # r"
        and "takeWhile isDigit (a @ CHR ''.'' # r) = a"
    by (simp_all add: dropWhile_append3 takeWhile_append2 dot_not_digit)
  then show ?thesis using assms(1) by (simp add: digitsThenDot_def)
qed

lemma digitsThenDot_SomeD:
  assumes "digitsThenDot s = Some r"
  shows "\<exists>a. s = a @ CHR ''.'' # r \<and> a \<noteq> [] \<and> list_all isDigit a"
proof -
  from assms obtain c where d: "dropWhile isDigit s = c # r" and c: "c = CHR ''.''"
    and t: "takeWhile isDigit s \<noteq> []"
    by (auto simp: digitsThenDot_def split: list.splits if_splits)
  have "s = takeWhile isDigit s @ dropWhile isDigit s" by simp
  then have "s = takeWhile isDigit s @ CHR ''.'' # r" using d c by simp
  moreover have "list_all isDigit (takeWhile isDigit s)"
    by (simp add: list_all_iff) (meson set_takeWhileD)
  ultimately show ?thesis using t by blast
qed

lemma matchHere_iff:
  "matchHere s \<longleftrightarrow>
     (\<exists>a b c q. s = a @ ''.'' @ b @ ''.'' @ c @ q \<and> a \<noteq> [] \<and> b \<noteq> [] \<and> c \<noteq> [] \<and>
        list_all isDigit a \<and> list_all isDigit b \<and> list_all isDigit c)"
proof
  assume "matchHere s"
  then obtain r1 r2 d q where 1: "digitsThenDot s = Some r1" and 2: "digitsThenDot r1 = Some r2"
    and 3: "r2 = d # q" "isDigit d"
    by (auto simp: matchHere_def split: option.splits list.splits)
  from digitsThenDot_SomeD[OF 1] obtain a
    where a: "s = a @ CHR ''.'' # r1" "a \<noteq> []" "list_all isDigit a" by blast
  from digitsThenDot_SomeD[OF 2] obtain b
    where b: "r1 = b @ CHR ''.'' # r2" "b \<noteq> []" "list_all isDigit b" by blast
  have "s = a @ ''.'' @ b @ ''.'' @ [d] @ q" using a b 3 by simp
  moreover have "[d] \<noteq> []" "list_all isDigit [d]" using 3 by simp_all
  ultimately show "\<exists>a b c q. s = a @ ''.'' @ b @ ''.'' @ c @ q \<and> a \<noteq> [] \<and> b \<noteq> [] \<and> c \<noteq> [] \<and>
        list_all isDigit a \<and> list_all isDigit b \<and> list_all isDigit c"
    using a b by blast
next
  assume "\<exists>a b c q. s = a @ ''.'' @ b @ ''.'' @ c @ q \<and> a \<noteq> [] \<and> b \<noteq> [] \<and> c \<noteq> [] \<and>
        list_all isDigit a \<and> list_all isDigit b \<and> list_all isDigit c"
  then obtain a b c q where s: "s = a @ ''.'' @ b @ ''.'' @ c @ q"
    and ne: "a \<noteq> []" "b \<noteq> []" "c \<noteq> []"
    and dg: "list_all isDigit a" "list_all isDigit b" "list_all isDigit c" by blast
  have 1: "digitsThenDot s = Some (b @ CHR ''.'' # c @ q)"
    using digitsThenDot_append[OF ne(1) dg(1)] s by simp
  have 2: "digitsThenDot (b @ CHR ''.'' # c @ q) = Some (c @ q)"
    using digitsThenDot_append[OF ne(2) dg(2)] by simp
  obtain d c' where c: "c = d # c'" using ne(3) by (cases c) auto
  then have "isDigit d" using dg(3) by simp
  then show "matchHere s" using 1 2 c by (simp add: matchHere_def)
qed

lemma MatchString_version_iff_suffix:
  "MatchString_version s \<longleftrightarrow> (\<exists>p t. s = p @ t \<and> matchHere t)"
proof (induction s)
  case Nil
  have "\<not> matchHere []" by (simp add: matchHere_def digitsThenDot_def)
  then show ?case by simp
next
  case (Cons x xs)
  show ?case
  proof
    assume "MatchString_version (x # xs)"
    then consider "matchHere (x # xs)" | "MatchString_version xs" by auto
    then show "\<exists>p t. x # xs = p @ t \<and> matchHere t"
    proof cases
      case 1
      then show ?thesis by (metis append_Nil)
    next
      case 2
      then obtain p t where "xs = p @ t" "matchHere t" using Cons.IH by blast
      then have "x # xs = (x # p) @ t" by simp
      then show ?thesis using \<open>matchHere t\<close> by blast
    qed
  next
    assume "\<exists>p t. x # xs = p @ t \<and> matchHere t"
    then obtain p t where pt: "x # xs = p @ t" "matchHere t" by blast
    show "MatchString_version (x # xs)"
    proof (cases p)
      case Nil
      then have "matchHere (x # xs)" using pt by simp
      then show ?thesis by simp
    next
      case (Cons y p')
      then have "xs = p' @ t" using pt by simp
      then have "MatchString_version xs" using Cons.IH pt(2) by blast
      then show ?thesis by simp
    qed
  qed
qed

lemma MatchString_version_iff:
  "MatchString_version s \<longleftrightarrow>
     (\<exists>p a b c q. s = p @ a @ ''.'' @ b @ ''.'' @ c @ q \<and> a \<noteq> [] \<and> b \<noteq> [] \<and> c \<noteq> [] \<and>
        list_all isDigit a \<and> list_all isDigit b \<and> list_all isDigit c)"
  unfolding MatchString_version_iff_suffix matchHere_iff by blast

lemma MatchString_version_examples:
  "MatchString_version ''1.2.3''" "\<not> MatchString_version ''dev''"
  by (simp_all add: matchHere_def digitsThenDot_def isDigit_def)

text \<open>
  Claim C4, as amended. A version string matches the pattern exactly when it contains three
  non-empty runs of digits separated by dots. \<open>getOktetoCLIVersion\<close> returns the image template
  formatted with the version string if the string matches; otherwise it returns the value of
  the variable that overrides the remote CLI image when that value is not empty, and the
  template formatted with \<^verbatim>\<open>latest\<close> when it is. The result is the versioned reference exactly when
  the string matches or what is returned otherwise happens to be that reference. So \<^verbatim>\<open>1.2.3\<close>
  gives the versioned reference and \<^verbatim>\<open>dev\<close> the override or the reference tagged \<^verbatim>\<open>latest\<close>.
\<close>

theorem getOktetoCLIVersion_cases:
  "(MatchString_version v \<longleftrightarrow>
      (\<exists>p a b c q. v = p @ a @ ''.'' @ b @ ''.'' @ c @ q \<and> a \<noteq> [] \<and> b \<noteq> [] \<and> c \<noteq> [] \<and>
         list_all isDigit a \<and> list_all isDigit b \<and> list_all isDigit c))
   \<and> getOktetoCLIVersion D getenv v =
       (if MatchString_version v then Sprintf (OktetoCLIImageForRemoteTemplate D) [v]
        else if getenv (OKtetoDeployRemoteImage D) \<noteq> [] then getenv (OKtetoDeployRemoteImage D)
        else Sprintf (OktetoCLIImageForRemoteTemplate D) [''latest''])
   \<and> (getOktetoCLIVersion D getenv v = Sprintf (OktetoCLIImageForRemoteTemplate D) [v] \<longleftrightarrow>
        MatchString_version v
        \<or> (if getenv (OKtetoDeployRemoteImage D) \<noteq> [] then getenv (OKtetoDeployRemoteImage D)
            else Sprintf (OktetoCLIImageForRemoteTemplate D) [''latest''])
           = Sprintf (OktetoCLIImageForRemoteTemplate D) [v])
   \<and> getOktetoCLIVersion D getenv ''1.2.3'' = Sprintf (OktetoCLIImageForRemoteTemplate D) [''1.2.3'']
   \<and> getOktetoCLIVersion D getenv ''dev'' =
       (if getenv (OKtetoDeployRemoteImage D) \<noteq> [] then getenv (OKtetoDeployRemoteImage D)
        else Sprintf (OktetoCLIImageForRemoteTemplate D) [''latest''])"
proof -
  have "getOktetoCLIVersion D getenv v = Sprintf (OktetoCLIImageForRemoteTemplate D) [v] \<longleftrightarrow>
        MatchString_version v
        \<or> (if getenv (OKtetoDeployRemoteImage D) \<noteq> [] then getenv (OKtetoDeployRemoteImage D)
            else Sprintf (OktetoCLIImageForRemoteTemplate D) [''latest''])
           = Sprintf (OktetoCLIImageForRemoteTemplate D) [v]"
    by (simp only: getOktetoCLIVersion_def Let_def split: if_splits) blast
  moreover
  have "getOktetoCLIVersion D getenv ''1.2.3'' = Sprintf (OktetoCLIImageForRemoteTemplate D) [''1.2.3'']"
    using MatchString_version_examples(1) by (simp only: getOktetoCLIVersion_def if_True)
  moreover have "getOktetoCLIVersion D getenv ''dev'' =
       (if getenv (OKtetoDeployRemoteImage D) \<noteq> [] then getenv (OKtetoDeployRemoteImage D)
        else Sprintf (OktetoCLIImageForRemoteTemplate D) [''latest''])"
    using MatchString_version_examples(2) by (simp only: getOktetoCLIVersion_def if_False Let_def)
  moreover have "getOktetoCLIVersion D getenv v =
       (if MatchString_version v then Sprintf (OktetoCLIImageForRemoteTemplate D) [v]
        else if getenv (OKtetoDeployRemoteImage D) \<noteq> [] then getenv (OKtetoDeployRemoteImage D)
        else Sprintf (OktetoCLIImageForRemoteTemplate D) [''latest''])"
    by (simp only: getOktetoCLIVersion_def Let_def)
  ultimately show ?thesis using MatchString_version_iff[of v] by blast
qed

theorem getOktetoCLIVersion_cases_witness:
  "getOktetoCLIVersion exampleDecls (\<lambda>name. []) ''1.2.3'' = ''okteto/okteto:1.2.3''
   \<and> getOktetoCLIVersion exampleDecls (\<lambda>name. []) ''dev'' = ''okteto/okteto:latest''
   \<and> getOktetoCLIVersion exampleDecls (\<lambda>name. ''registry.example/okteto:dev'') ''dev''
       = ''registry.example/okteto:dev''"
  using getOktetoCLIVersion_cases[of "''1.2.3''" exampleDecls "\<lambda>name. []",
      THEN conjunct2, THEN conjunct2, THEN conjunct2]
    getOktetoCLIVersion_cases[of "''dev''" exampleDecls "\<lambda>name. ''registry.example/okteto:dev''",
      THEN conjunct2, THEN conjunct2, THEN conjunct2]
  by (simp add: exampleDecls_def)

text \<open>The claim as it was stated fails for the version string \<^verbatim>\<open>latest\<close> when the variable is not
  set: the string does not match the pattern, and the result is the template formatted with
  that very string.\<close>

theorem getOktetoCLIVersion_latest_counterexample:
  "\<not> MatchString_version ''latest''
   \<and> getOktetoCLIVersion exampleDecls (environ exampleWorld) ''latest''
       = Sprintf (OktetoCLIImageForRemoteTemplate exampleDecls) [''latest'']
   \<and> getOktetoCLIVersion exampleDecls (environ exampleWorld) ''latest'' = ''okteto/okteto:latest''"
  by (simp add: getOktetoCLIVersion_def matchHere_def digitsThenDot_def isDigit_def exampleDecls_def
      exampleWorld_def)

subsection \<open>The destroy flags as the shell reads them\<close>







lemma nonBlanks_simps [simp]:
  "nonBlanks [] = 0" "nonBlanks (c # s) = (if isBlank c then nonBlanks s else Suc (nonBlanks s))"
  "nonBlanks (a @ b) = nonBlanks a + nonBlanks b"
  by (simp_all add: nonBlanks_def)



















subsection \<open>Cluster metadata\<close>

text \<open>
  Claim C7, as amended. \<^verbatim>\<open>fetchClusterMetadata\<close> calls the API in this order, and no call twice:
  \<^verbatim>\<open>Provide\<close>; then \<^verbatim>\<open>GetClusterMetadata\<close> for the namespace of the context; then, only when the
  metadata returned has no certificate, \<^verbatim>\<open>GetClusterCertificate\<close> for the name and the namespace of
  the context, whose certificate it puts into the metadata. A call that fails is the last
  one, and the function then returns an error: for \<^verbatim>\<open>Provide\<close> a new error whose message holds the
  text of the cause, for either of the two other calls the error of the call as it is.
\<close>

theorem fetchClusterMetadata_calls_and_errors:
  "snd (fetchClusterMetadata D api ctx) =
     ProvideCall #
     (case Provide api of
        Some e \<Rightarrow> []
      | None \<Rightarrow>
          GetClusterMetadataCall (CtxNamespace ctx) #
          (case GetClusterMetadata api (CtxNamespace ctx) of
             Inl e \<Rightarrow> []
           | Inr md \<Rightarrow>
               if Certificate md = None
               then [GetClusterCertificateCall (CtxName ctx) (CtxNamespace ctx)] else []))
   \<and> distinct (snd (fetchClusterMetadata D api ctx))
   \<and> (\<forall>e. Provide api = Some e \<longrightarrow>
        fst (fetchClusterMetadata D api ctx) =
          (None, Some (ErrorString (''failed to provide okteto client for fetching certs: '' @ Error D e))))
   \<and> (\<forall>e. Provide api = None \<and> GetClusterMetadata api (CtxNamespace ctx) = Inl e \<longrightarrow>
        fst (fetchClusterMetadata D api ctx) = (None, Some e))
   \<and> (\<forall>md. Provide api = None \<and> GetClusterMetadata api (CtxNamespace ctx) = Inr md
          \<and> Certificate md \<noteq> None \<longrightarrow>
        fst (fetchClusterMetadata D api ctx) = (Some md, None))
   \<and> (\<forall>md cert err. Provide api = None \<and> GetClusterMetadata api (CtxNamespace ctx) = Inr md
          \<and> Certificate md = None
          \<and> GetClusterCertificate api (CtxName ctx) (CtxNamespace ctx) = (cert, err) \<longrightarrow>
        fst (fetchClusterMetadata D api ctx) = (Some (md\<lparr>Certificate := cert\<rparr>), err))"
proof -
  have f: "Errorf D ''failed to provide okteto client for fetching certs: %s'' e =
      ErrorString (''failed to provide okteto client for fetching certs: '' @ Error D e)" for e
    by (simp add: Errorf_def)
  show ?thesis
    by (auto simp: fetchClusterMetadata_def f split: option.splits sum.splits prod.splits)
qed

theorem fetchClusterMetadata_calls_and_errors_witness:
  "fst (fetchClusterMetadata exampleDecls
      \<lparr>Provide = Some (ErrorString ''no context''),
       GetClusterMetadata = (\<lambda>ns. Inr exampleMetadata),
       GetClusterCertificate = (\<lambda>name ns. (None, None))\<rparr> (okctx exampleWorld))
     = (None, Some (ErrorString ''failed to provide okteto client for fetching certs: no context''))
   \<and> fst (fetchClusterMetadata exampleDecls
      \<lparr>Provide = None,
       GetClusterMetadata = (\<lambda>ns. Inl (ErrorString ''connection refused'')),
       GetClusterCertificate = (\<lambda>name ns. (None, None))\<rparr> (okctx exampleWorld))
     = (None, Some (ErrorString ''connection refused''))
   \<and> fst (fetchClusterMetadata exampleDecls
      \<lparr>Provide = None,
       GetClusterMetadata = (\<lambda>ns. Inr exampleMetadata),
       GetClusterCertificate = (\<lambda>name ns. (None, None))\<rparr> (okctx exampleWorld))
     = (Some exampleMetadata, None)
   \<and> fst (fetchClusterMetadata exampleDecls
      \<lparr>Provide = None,
       GetClusterMetadata = (\<lambda>ns. Inr (exampleMetadata\<lparr>Certificate := None\<rparr>)),
       GetClusterCertificate = (\<lambda>name ns. (Some (''cert of '' @ ns), None))\<rparr> (okctx exampleWorld))
     = (Some (exampleMetadata\<lparr>Certificate := Some ''cert of ns1''\<rparr>), None)"
proof -
  let ?ctx = "okctx exampleWorld"
  let ?a1 = "\<lparr>Provide = Some (ErrorString ''no context''),
       GetClusterMetadata = (\<lambda>ns. Inr exampleMetadata),
       GetClusterCertificate = (\<lambda>name ns. (None, None))\<rparr>"
  let ?a2 = "\<lparr>Provide = None,
       GetClusterMetadata = (\<lambda>ns. Inl (ErrorString ''connection refused'')),
       GetClusterCertificate = (\<lambda>name ns. (None, None))\<rparr>"
  let ?a3 = "\<lparr>Provide = None,
       GetClusterMetadata = (\<lambda>ns. Inr exampleMetadata),
       GetClusterCertificate = (\<lambda>name ns. (None, None))\<rparr>"
  let ?a4 = "\<lparr>Provide = None,
       GetClusterMetadata = (\<lambda>ns. Inr (exampleMetadata\<lparr>Certificate := None\<rparr>)),
       GetClusterCertificate = (\<lambda>name ns. (Some (''cert of '' @ ns), None))\<rparr>"
  note t = fetchClusterMetadata_calls_and_errors[of exampleDecls _ ?ctx,
      THEN conjunct2, THEN conjunct2]
  have 1: "fst (fetchClusterMetadata exampleDecls ?a1 ?ctx)
      = (None, Some (ErrorString ''failed to provide okteto client for fetching certs: no context''))"
    using t[of ?a1, THEN conjunct1, rule_format, of "ErrorString ''no context''"] by simp
  have 2: "fst (fetchClusterMetadata exampleDecls ?a2 ?ctx) = (None, Some (ErrorString ''connection refused''))"
    using t[of ?a2, THEN conjunct2, THEN conjunct1, rule_format, of "ErrorString ''connection refused''"]
    by simp
  have 3: "fst (fetchClusterMetadata exampleDecls ?a3 ?ctx) = (Some exampleMetadata, None)"
    using t[of ?a3, THEN conjunct2, THEN conjunct2, THEN conjunct1, rule_format, of exampleMetadata]
    by (simp add: exampleMetadata_def)
  have 4: "fst (fetchClusterMetadata exampleDecls ?a4 ?ctx)
      = (Some (exampleMetadata\<lparr>Certificate := Some ''cert of ns1''\<rparr>), None)"
    using t[of ?a4, THEN conjunct2, THEN conjunct2, THEN conjunct2, rule_format,
        of "exampleMetadata\<lparr>Certificate := None\<rparr>" "Some ''cert of ns1''" None]
    by (simp add: exampleWorld_def)
  from 1 2 3 4 show ?thesis by blast
qed

text \<open>The claim as it was stated fails where a network call fails: the error returned is the
  error of the call, not an error that wraps it (and with the error of the second call comes the
  metadata).\<close>

theorem fetchClusterMetadata_unwrapped_counterexample:
  "fst (fetchClusterMetadata exampleDecls
      \<lparr>Provide = None,
       GetClusterMetadata = (\<lambda>ns. Inl (ErrorString ''connection refused'')),
       GetClusterCertificate = (\<lambda>name ns. (None, None))\<rparr> (okctx exampleWorld))
     = (None, Some (ErrorString ''connection refused''))
   \<and> fst (fetchClusterMetadata exampleDecls
      \<lparr>Provide = None,
       GetClusterMetadata = (\<lambda>ns. Inr (exampleMetadata\<lparr>Certificate := None\<rparr>)),
       GetClusterCertificate = (\<lambda>name ns. (None, Some (ErrorString ''timeout'')))\<rparr> (okctx exampleWorld))
     = (Some (exampleMetadata\<lparr>Certificate := None\<rparr>), Some (ErrorString ''timeout''))"
  by (simp add: fetchClusterMetadata_def)

subsection \<open>The ignore file\<close>

lemma Sprintf_path: "Sprintf ''%s/%s'' [a, b] = a @ ''/'' @ b"
  by simp

lemma logCall_simps [simp]:
  "files (logCall cl err w) = files w"
  "workdir (logCall cl err w) = workdir w"
  "environ (logCall cl err w) = environ w"
  "okctx (logCall cl err w) = okctx w"
  "logStage (logCall cl err w) = logStage w"
  "logBuffer (logCall cl err w) = logBuffer w"
  "logInfo (logCall cl err w) = logInfo w"
  "randReader (logCall cl err w) = randReader w"
  "calls (logCall cl err w) = calls w @ [(cl, err)]"
  by (simp_all add: logCall_def)

lemma notExist_Is [simp]: "errors_Is_ErrNotExist D (notExist op name)"
  by (simp add: notExist_def)

text \<open>
  Claim C6. With \<^verbatim>\<open>.oktetodeployignore\<close> in the working directory and no call failing,
  \<^verbatim>\<open>createDockerignoreIfNeeded\<close> succeeds and leaves the files as they were but for
  \<^verbatim>\<open>.dockerignore\<close> in the temporal directory, which holds the content of the source. Without
  the source file it succeeds and leaves the files as they were. An error of \<^verbatim>\<open>Stat\<close> is returned
  unless it is one of non-existence, and an error of reading or of writing is returned.
\<close>

theorem createDockerignoreIfNeeded_copies:
  "(fault c (FsStat (cwd @ ''/.oktetodeployignore'')) w = None
      \<and> files w (cwd @ ''/.oktetodeployignore'') = Some content
      \<and> fault c (FsReadFile (cwd @ ''/.oktetodeployignore''))
          (logCall (FsStat (cwd @ ''/.oktetodeployignore'')) None w) = None
      \<and> fault c (FsWriteFile (tmpDir @ ''/.dockerignore'') content)
          (logCall (FsReadFile (cwd @ ''/.oktetodeployignore'')) None
            (logCall (FsStat (cwd @ ''/.oktetodeployignore'')) None w)) = None
    \<longrightarrow> fst (createDockerignoreIfNeeded D c cwd tmpDir w) = None
      \<and> files (snd (createDockerignoreIfNeeded D c cwd tmpDir w))
          = (files w)(tmpDir @ ''/.dockerignore'' \<mapsto> content))
   \<and> (fault c (FsStat (cwd @ ''/.oktetodeployignore'')) w = None
      \<and> files w (cwd @ ''/.oktetodeployignore'') = None
    \<longrightarrow> fst (createDockerignoreIfNeeded D c cwd tmpDir w) = None
      \<and> files (snd (createDockerignoreIfNeeded D c cwd tmpDir w)) = files w)
   \<and> (fault c (FsStat (cwd @ ''/.oktetodeployignore'')) w = Some e
    \<longrightarrow> fst (createDockerignoreIfNeeded D c cwd tmpDir w)
          = (if errors_Is_ErrNotExist D e then None else Some e)
      \<and> files (snd (createDockerignoreIfNeeded D c cwd tmpDir w)) = files w)
   \<and> (fault c (FsStat (cwd @ ''/.oktetodeployignore'')) w = None
      \<and> files w (cwd @ ''/.oktetodeployignore'') = Some content
      \<and> fault c (FsReadFile (cwd @ ''/.oktetodeployignore''))
          (logCall (FsStat (cwd @ ''/.oktetodeployignore'')) None w) = Some e
    \<longrightarrow> fst (createDockerignoreIfNeeded D c cwd tmpDir w) = Some e
      \<and> files (snd (createDockerignoreIfNeeded D c cwd tmpDir w)) = files w)
   \<and> (fault c (FsStat (cwd @ ''/.oktetodeployignore'')) w = None
      \<and> files w (cwd @ ''/.oktetodeployignore'') = Some content
      \<and> fault c (FsReadFile (cwd @ ''/.oktetodeployignore''))
          (logCall (FsStat (cwd @ ''/.oktetodeployignore'')) None w) = None
      \<and> fault c (FsWriteFile (tmpDir @ ''/.dockerignore'') content)
          (logCall (FsReadFile (cwd @ ''/.oktetodeployignore'')) None
            (logCall (FsStat (cwd @ ''/.oktetodeployignore'')) None w)) = Some e
    \<longrightarrow> fst (createDockerignoreIfNeeded D c cwd tmpDir w) = Some e
      \<and> files (snd (createDockerignoreIfNeeded D c cwd tmpDir w)) = files w)"
  unfolding createDockerignoreIfNeeded_def Sprintf_path Let_def
  by (simp add: fs_Stat_def afero_ReadFile_def afero_WriteFile_def)

theorem createDockerignoreIfNeeded_copies_witness:
  "fst (createDockerignoreIfNeeded exampleDecls exampleCollaborators ''/work'' ''/tmp/okteto'' exampleWorld) = None
   \<and> files (snd (createDockerignoreIfNeeded exampleDecls exampleCollaborators ''/work'' ''/tmp/okteto''
        exampleWorld)) ''/tmp/okteto/.dockerignore'' = Some ''node_modules''
   \<and> fst (createDockerignoreIfNeeded exampleDecls exampleCollaborators ''/home'' ''/tmp/okteto'' exampleWorld) = None
   \<and> files (snd (createDockerignoreIfNeeded exampleDecls exampleCollaborators ''/home'' ''/tmp/okteto''
        exampleWorld)) ''/tmp/okteto/.dockerignore'' = None
   \<and> fst (createDockerignoreIfNeeded exampleDecls (exampleFaults isStat (ErrorString ''permission denied''))
        ''/work'' ''/tmp/okteto'' exampleWorld) = Some (ErrorString ''permission denied'')
   \<and> fst (createDockerignoreIfNeeded exampleDecls (exampleFaults isReadFile (ErrorString ''input/output error''))
        ''/work'' ''/tmp/okteto'' exampleWorld) = Some (ErrorString ''input/output error'')
   \<and> fst (createDockerignoreIfNeeded exampleDecls (exampleFaults isWriteFile (ErrorString ''no space left''))
        ''/work'' ''/tmp/okteto'' exampleWorld) = Some (ErrorString ''no space left'')"
proof -
  note t = createDockerignoreIfNeeded_copies[of _ _ exampleWorld _ "''/tmp/okteto''" exampleDecls]
  note d = exampleCollaborators_def exampleFaults_def exampleWorld_def isStat_def isReadFile_def
    isWriteFile_def
  have 1: "fst (createDockerignoreIfNeeded exampleDecls exampleCollaborators ''/work'' ''/tmp/okteto'' exampleWorld) = None
     \<and> files (snd (createDockerignoreIfNeeded exampleDecls exampleCollaborators ''/work'' ''/tmp/okteto''
        exampleWorld)) ''/tmp/okteto/.dockerignore'' = Some ''node_modules''"
    using t[of exampleCollaborators "''/work''" "''node_modules''", THEN conjunct1]
    by (simp add: d)
  have 2: "fst (createDockerignoreIfNeeded exampleDecls exampleCollaborators ''/home'' ''/tmp/okteto'' exampleWorld) = None
     \<and> files (snd (createDockerignoreIfNeeded exampleDecls exampleCollaborators ''/home'' ''/tmp/okteto''
        exampleWorld)) ''/tmp/okteto/.dockerignore'' = None"
    using t[of exampleCollaborators "''/home''", THEN conjunct2, THEN conjunct1]
    by (simp add: d)
  have 3: "fst (createDockerignoreIfNeeded exampleDecls (exampleFaults isStat (ErrorString ''permission denied''))
        ''/work'' ''/tmp/okteto'' exampleWorld) = Some (ErrorString ''permission denied'')"
    using t[of "exampleFaults isStat (ErrorString ''permission denied'')" "''/work''" _
        "ErrorString ''permission denied''", THEN conjunct2, THEN conjunct2, THEN conjunct1]
    by (simp add: d)
  have 4: "fst (createDockerignoreIfNeeded exampleDecls (exampleFaults isReadFile (ErrorString ''input/output error''))
        ''/work'' ''/tmp/okteto'' exampleWorld) = Some (ErrorString ''input/output error'')"
    using t[of "exampleFaults isReadFile (ErrorString ''input/output error'')" "''/work''" "''node_modules''"
        "ErrorString ''input/output error''", THEN conjunct2, THEN conjunct2, THEN conjunct2, THEN conjunct1]
    by (simp add: d)
  have 5: "fst (createDockerignoreIfNeeded exampleDecls (exampleFaults isWriteFile (ErrorString ''no space left''))
        ''/work'' ''/tmp/okteto'' exampleWorld) = Some (ErrorString ''no space left'')"
    using t[of "exampleFaults isWriteFile (ErrorString ''no space left'')" "''/work''" "''node_modules''"
        "ErrorString ''no space left''", THEN conjunct2, THEN conjunct2, THEN conjunct2, THEN conjunct2]
    by (simp add: d)
  from 1 2 3 4 5 show ?thesis by simp
qed

subsection \<open>The calls of a run\<close>

lemma early_simps [simp]:
  "early ClusterMetadataCall" "early WdGet" "early TemporalCreate" "early RandInt"
  "early (FsCreate n)" "early (FsStat n)" "early (FsReadFile n)" "early (FsWriteFile n x)"
  "early (TemplateExecute n)" "\<not> early (WdChange d)" "\<not> early (BuilderBuild bo)"
  "\<not> early (FsRemove n)"
  by (simp_all add: early_def)

lemma BitLen_999: "BitLen 999 = 10"
  by (simp add: BitLen.simps)

lemma rand_Int_from_1000:
  "rand_Int_from 1000 [] = (Inl (ErrorString ''EOF''), [])"
  "rand_Int_from 1000 [a] = (Inl (ErrorString ''unexpected EOF''), [])"
  "rand_Int_from 1000 (a # b # bytes) =
     (if of_char a mod 4 * 256 + of_char b < (1000::nat)
      then (Inr (of_char a mod 4 * 256 + of_char b), bytes)
      else rand_Int_from 1000 bytes)"
  by (simp_all add: rand_Int_from.simps[of 1000] BitLen_999 SetBytes_def Let_def)

lemma rand_Int_from_1000_Inr:
  "rand_Int_from 1000 bytes = (Inr n, rest) \<Longrightarrow>
     \<exists>skipped a b. bytes = skipped @ a # b # rest \<and> redrawn skipped
        \<and> n = of_char a mod 4 * 256 + of_char b \<and> n < 1000"
proof (induction bytes rule: redrawn.induct)
  case 1
  then show ?case by (simp add: rand_Int_from_1000)
next
  case (2 a)
  then show ?case by (simp add: rand_Int_from_1000)
next
  case (3 a b bytes)
  show ?case
  proof (cases "of_char a mod 4 * 256 + of_char b < (1000::nat)")
    case True
    then have "n = of_char a mod 4 * 256 + of_char b" "rest = bytes"
      using 3(2) by (simp_all add: rand_Int_from_1000)
    then show ?thesis using True by (intro exI[of _ "[]"] exI[of _ a] exI[of _ b]) simp
  next
    case False
    then have "rand_Int_from 1000 bytes = (Inr n, rest)" using 3(2) by (simp add: rand_Int_from_1000)
    from 3(1)[OF this] obtain skipped a' b' where
      s: "bytes = skipped @ a' # b' # rest" "redrawn skipped"
        "n = of_char a' mod 4 * 256 + of_char b'" "n < 1000" by blast
    show ?thesis using s False
      by (intro exI[of _ "a # b # skipped"] exI[of _ a'] exI[of _ b']) simp
  qed
qed

lemma createDockerignoreIfNeeded_frame:
  assumes "createDockerignoreIfNeeded D c cwd tmpDir w = (r, w')"
  shows "randReader w' = randReader w \<and> environ w' = environ w \<and> okctx w' = okctx w
     \<and> workdir w' = workdir w \<and> logStage w' = logStage w
     \<and> (\<exists>evs. calls w' = calls w @ evs \<and> list_all (\<lambda>ev. early (fst ev)) evs
           \<and> (\<forall>n e. (TemplateExecute n, e) \<notin> set evs))"
  using assms
  unfolding createDockerignoreIfNeeded_def Let_def
  by (auto simp: fs_Stat_def afero_ReadFile_def afero_WriteFile_def
      split: option.splits if_splits sum.splits)

lemma dockerfileSyntax_cong:
  "environ w' = environ w \<Longrightarrow> okctx w' = okctx w \<Longrightarrow>
     dockerfileSyntax D rd opts img n w' = dockerfileSyntax D rd opts img n w"
  by (simp add: dockerfileSyntax_def)

lemma createDockerfile_run:
  assumes "createDockerfile D c rd tmp opts img w = (r, w')"
  shows "(\<exists>evs. calls w' = calls w @ evs \<and> list_all (\<lambda>ev. early (fst ev)) evs
           \<and> (case r of
                Inl err \<Rightarrow> (\<forall>n. (TemplateExecute n, None) \<notin> set evs)
              | Inr df \<Rightarrow> (TemplateExecute df, None) \<in> set evs))
     \<and> logStage w' = logStage w
     \<and> (\<forall>df. r = Inr df \<longrightarrow>
          (\<exists>n rest. rand_Int_from 1000 (randReader w) = (Inr n, rest) \<and> randReader w' = rest
             \<and> df = filepath_Join D tmp ''deploy''
             \<and> files w' df = Some (Execute_dockerfileTemplate (dockerfileSyntax D rd opts img n w))))"
proof -
  show ?thesis
  proof (cases "wd_Get c w")
    case (Pair r1 w1)
    note g = Pair
    show ?thesis
    proof (cases r1)
      case (Inl e)
      then show ?thesis using assms g
        by (auto simp: createDockerfile_def wd_Get_def split: option.splits)
    next
      case (Inr cwd)
      have w1: "w1 = logCall WdGet None w"
        using g Inr by (auto simp: wd_Get_def split: option.splits)
      obtain r2 w2 where ri: "rand_Int c 1000 w1 = (r2, w2)" by (cases "rand_Int c 1000 w1")
      show ?thesis
      proof (cases r2)
        case (Inl e)
        then show ?thesis using assms g \<open>r1 = Inr cwd\<close> ri w1
          by (auto simp: createDockerfile_def rand_Int_def split: option.splits prod.splits)
      next
        case rn: (Inr n)
        obtain rest where rr: "rand_Int_from 1000 (randReader w) = (Inr n, rest)"
          and w2: "w2 = logCall RandInt None (w1\<lparr>randReader := rest\<rparr>)"
          using ri rn w1 by (auto simp: rand_Int_def leftError_def split: option.splits prod.splits)
        obtain r3 w3 where cr: "fs_Create c (filepath_Join D tmp ''deploy'') w2 = (r3, w3)"
          by (cases "fs_Create c (filepath_Join D tmp ''deploy'') w2")
        show ?thesis
        proof (cases r3)
          case (Inl e)
          then show ?thesis using assms g \<open>r1 = Inr cwd\<close> ri rn cr w1 w2
            by (auto simp: createDockerfile_def fs_Create_def Let_def split: option.splits)
        next
          case rf: (Inr df)
          have df: "df = filepath_Join D tmp ''deploy''"
            and w3: "w3 = logCall (FsCreate df) None (w2\<lparr>files := (files w2)(df \<mapsto> [])\<rparr>)"
            using cr rf by (auto simp: fs_Create_def split: option.splits)
          obtain r4 w4 where ig: "createDockerignoreIfNeeded D c cwd tmp w3 = (r4, w4)"
            by (cases "createDockerignoreIfNeeded D c cwd tmp w3")
          from createDockerignoreIfNeeded_frame[OF ig] obtain evs where
            f4: "randReader w4 = randReader w3" "environ w4 = environ w3" "okctx w4 = okctx w3"
              "logStage w4 = logStage w3"
            and c4: "calls w4 = calls w3 @ evs" "list_all (\<lambda>ev. early (fst ev)) evs"
              "\<forall>n e. (TemplateExecute n, e) \<notin> set evs"
            by blast
          show ?thesis
          proof (cases r4)
            case (Some e)
            then show ?thesis
              using assms g \<open>r1 = Inr cwd\<close> ri rn cr rf ig w1 w2 w3 df f4 c4
              by (auto simp: createDockerfile_def Let_def)
          next
            case None
            have syn: "dockerfileSyntax D rd opts img n w2 = dockerfileSyntax D rd opts img n w"
              by (rule dockerfileSyntax_cong) (simp_all add: w2 w1)
            show ?thesis
              using assms g \<open>r1 = Inr cwd\<close> ri rn cr rf ig None w1 w2 w3 df f4 c4 rr syn
              by (auto simp: createDockerfile_def Let_def tmpl_Execute_def split: option.splits)
          qed
        qed
      qed
    qed
  qed
qed

lemma invoke_run:
  assumes "invoke cl errOf f w = (r, w')"
  shows "calls w' = calls w @ [(cl, errOf r)] \<and> (\<exists>w''. f w = (r, w'') \<and> workdir w' = workdir w''
     \<and> logStage w' = logStage w'' \<and> files w' = files w'')"
  using assms by (auto simp: invoke_def split: prod.splits)

lemma handleBuildError_result:
  "fst (handleBuildError D err w) =
     (case errors_As_OktetoCommandErr D err of
        Some (cause, stage) \<Rightarrow>
          UserError (WrapError (''error during development environment deployment: '' @ Error D cause) cause) []
      | None \<Rightarrow>
          (case errors_As_UserError D err of
             Some (e, hint) \<Rightarrow> UserError e hint
           | None \<Rightarrow>
               UserError (WrapError (''error during destroy of the development environment: '' @ Error D err) err) []))"
  "logStage (snd (handleBuildError D err w)) =
     (case errors_As_OktetoCommandErr D err of Some (cause, stage) \<Rightarrow> stage | None \<Rightarrow> ''remote deploy'')"
  "calls (snd (handleBuildError D err w)) = calls w"
  "files (snd (handleBuildError D err w)) = files w"
  by (simp_all add: handleBuildError_def Errorf_def SetStage_def Let_def split: option.splits)

lemma deferredRemove_run:
  "\<exists>rerr. calls (deferredRemove c df w) = calls w @ [(FsRemove df, rerr)]
     \<and> (\<forall>e. rerr = Some e \<longrightarrow>
           logInfo (deferredRemove c df w) = logInfo w @ [(''error removing dockerfile: %w'', e)])"
  "logStage (deferredRemove c df w) = logStage w"
  by (auto simp: deferredRemove_def fs_Remove_def Infof_def split: option.splits)

lemma restoreAndBuild_run:
  assumes "restoreAndBuild D c rd sc cwd df w = (res, w')"
  shows "(\<exists>e. calls w' = calls w @ [(WdChange cwd, Some e)] \<and> res = Some e)
     \<or> (\<exists>berr wb. calls wb = calls w @ [(WdChange cwd, None)] \<and> workdir wb = cwd
           \<and> berr = fst (builder_Build c (buildRequest D rd sc cwd df) wb)
           \<and> calls w' = calls w @ [(WdChange cwd, None), (BuilderBuild (buildRequest D rd sc cwd df), berr)]
           \<and> (case berr of
                None \<Rightarrow> res = None \<and> logStage w' = ''done''
              | Some err \<Rightarrow>
                  res = Some (fst (handleBuildError D err w))
                  \<and> logStage w' = logStage (snd (handleBuildError D err w)))
           \<and> w' =
               (case berr of
                  None \<Rightarrow> AddToBuffer ''info'' ''EOF'' (SetStage ''done''
                    (snd (invoke (BuilderBuild (buildRequest D rd sc cwd df)) (\<lambda>r. r)
                       (builder_Build c (buildRequest D rd sc cwd df)) wb)))
                | Some err \<Rightarrow> snd (handleBuildError D err
                    (snd (invoke (BuilderBuild (buildRequest D rd sc cwd df)) (\<lambda>r. r)
                       (builder_Build c (buildRequest D rd sc cwd df)) wb)))))"
proof (cases "fault c (WdChange cwd) w")
  case (Some e)
  then show ?thesis using assms by (auto simp: restoreAndBuild_def wd_Change_def)
next
  case None
  let ?w1 = "logCall (WdChange cwd) None (w\<lparr>workdir := cwd\<rparr>)"
  let ?bo = "buildRequest D rd sc cwd df"
  obtain berr w2 where b: "invoke (BuilderBuild ?bo) (\<lambda>r. r) (builder_Build c ?bo) ?w1 = (berr, w2)"
    by (cases "invoke (BuilderBuild ?bo) (\<lambda>r. r) (builder_Build c ?bo) ?w1")
  from invoke_run[OF b] have c2: "calls w2 = calls w @ [(WdChange cwd, None), (BuilderBuild ?bo, berr)]"
    and fb: "berr = fst (builder_Build c ?bo ?w1)"
    by auto
  have wb: "calls ?w1 = calls w @ [(WdChange cwd, None)]" "workdir ?w1 = cwd" by simp_all
  have w2: "snd (invoke (BuilderBuild ?bo) (\<lambda>r. r) (builder_Build c ?bo) ?w1) = w2"
    using b by simp
  have main: "(case berr of
          None \<Rightarrow> res = None \<and> logStage w' = ''done''
        | Some err \<Rightarrow>
            res = Some (fst (handleBuildError D err w))
            \<and> logStage w' = logStage (snd (handleBuildError D err w)))
      \<and> calls w' = calls w2
      \<and> w' = (case berr of
                None \<Rightarrow> AddToBuffer ''info'' ''EOF'' (SetStage ''done'' w2)
              | Some err \<Rightarrow> snd (handleBuildError D err w2))"
  proof (cases berr)
    case n: None
    then have "res = None" "w' = AddToBuffer ''info'' ''EOF'' (SetStage ''done'' w2)"
      using assms None b by (auto simp: restoreAndBuild_def wd_Change_def Let_def)
    then show ?thesis using n by (simp add: AddToBuffer_def SetStage_def)
  next
    case s: (Some err)
    then have r: "res = Some (fst (handleBuildError D err w2))" "w' = snd (handleBuildError D err w2)"
      using assms None b by (auto simp: restoreAndBuild_def wd_Change_def Let_def split: prod.splits)
    have "fst (handleBuildError D err w2) = fst (handleBuildError D err w)"
      "logStage (snd (handleBuildError D err w2)) = logStage (snd (handleBuildError D err w))"
      by (simp_all add: handleBuildError_result)
    then show ?thesis using r s by (simp add: handleBuildError_result(3))
  qed
  have "calls ?w1 = calls w @ [(WdChange cwd, None)] \<and> workdir ?w1 = cwd
      \<and> berr = fst (builder_Build c ?bo ?w1)
      \<and> calls w' = calls w @ [(WdChange cwd, None), (BuilderBuild ?bo, berr)]
      \<and> (case berr of
            None \<Rightarrow> res = None \<and> logStage w' = ''done''
          | Some err \<Rightarrow>
              res = Some (fst (handleBuildError D err w))
              \<and> logStage w' = logStage (snd (handleBuildError D err w)))
      \<and> w' =
          (case berr of
             None \<Rightarrow> AddToBuffer ''info'' ''EOF'' (SetStage ''done''
               (snd (invoke (BuilderBuild ?bo) (\<lambda>r. r) (builder_Build c ?bo) ?w1)))
           | Some err \<Rightarrow> snd (handleBuildError D err
               (snd (invoke (BuilderBuild ?bo) (\<lambda>r. r) (builder_Build c ?bo) ?w1))))"
    unfolding w2
    using main c2 fb wb by metis
  then show ?thesis by blast
qed

text \<open>The shape of a run of destroy.\<close>

lemma destroy_cases [consumes 1, case_names early change build]:
  assumes run: "destroy D c rd opts w = (res, rd', w')"
  obtains
    (early) "list_all (\<lambda>ev. early (fst ev)) (newCalls w w')"
      "\<forall>n. (TemplateExecute n, None) \<notin> set (newCalls w w')" "res \<noteq> None"
  | (change) pre df rerr e where
      "list_all (\<lambda>ev. early (fst ev)) pre"
      "take 2 pre = [(ClusterMetadataCall, None), (WdGet, None)]"
      "(TemplateExecute df, None) \<in> set pre"
      "\<forall>e. rerr = Some e \<longrightarrow> logInfo w' \<noteq> [] \<and> last (logInfo w') = (''error removing dockerfile: %w'', e)"
      "newCalls w w' = pre @ [(WdChange (workdir (snd (clusterMetadata c w))), Some e), (FsRemove df, rerr)]"
      "res = Some e"
  | (build) pre df sc rerr berr wb where
      "list_all (\<lambda>ev. early (fst ev)) pre"
      "take 2 pre = [(ClusterMetadataCall, None), (WdGet, None)]"
      "(TemplateExecute df, None) \<in> set pre"
      "\<forall>e. rerr = Some e \<longrightarrow> logInfo w' \<noteq> [] \<and> last (logInfo w') = (''error removing dockerfile: %w'', e)"
      "newCalls w w' =
         pre @ [(WdChange (workdir (snd (clusterMetadata c w))), None),
                (BuilderBuild (buildRequest D rd' sc (workdir (snd (clusterMetadata c w))) df), berr),
                (FsRemove df, rerr)]"
      "case berr of
         None \<Rightarrow> res = None \<and> logStage w' = ''done''
       | Some err \<Rightarrow>
           res = Some (fst (handleBuildError D err w))
           \<and> logStage w' = logStage (snd (handleBuildError D err w))"
      "newCalls w wb = pre @ [(WdChange (workdir (snd (clusterMetadata c w))), None)]"
      "workdir wb = workdir (snd (clusterMetadata c w))"
      "berr = fst (builder_Build c
         (buildRequest D rd' sc (workdir (snd (clusterMetadata c w))) df) wb)"
      "fst (wd_Get c (snd (invoke ClusterMetadataCall leftError (clusterMetadata c) w)))
         = Inr (workdir (snd (clusterMetadata c w)))"
      "w' = deferredRemove c df
         (case berr of
            None \<Rightarrow> AddToBuffer ''info'' ''EOF'' (SetStage ''done''
              (snd (invoke (BuilderBuild (buildRequest D rd' sc (workdir (snd (clusterMetadata c w))) df))
                 (\<lambda>r. r)
                 (builder_Build c (buildRequest D rd' sc (workdir (snd (clusterMetadata c w))) df)) wb)))
          | Some err \<Rightarrow> snd (handleBuildError D err
              (snd (invoke (BuilderBuild (buildRequest D rd' sc (workdir (snd (clusterMetadata c w))) df))
                 (\<lambda>r. r)
                 (builder_Build c (buildRequest D rd' sc (workdir (snd (clusterMetadata c w))) df)) wb))))"
proof -
  obtain r1 w1 where m: "invoke ClusterMetadataCall leftError (clusterMetadata c) w = (r1, w1)"
    by (cases "invoke ClusterMetadataCall leftError (clusterMetadata c) w")
  from invoke_run[OF m] have c1: "calls w1 = calls w @ [(ClusterMetadataCall, leftError r1)]"
    and wd1: "workdir w1 = workdir (snd (clusterMetadata c w))"
    by auto
  show ?thesis
  proof (cases r1)
    case (Inl e)
    then have "res = Some e" "w' = w1" using run m by (auto simp: destroy_def)
    then show ?thesis using c1 by (intro early) (simp_all add: newCalls_def)
  next
    case (Inr sc)
    define rd1 where "rd1 = (if destroyImage rd = [] then rd\<lparr>destroyImage := PipelineRunnerImage sc\<rparr> else rd)"
    obtain r2 w2 where g: "wd_Get c w1 = (r2, w2)" by (cases "wd_Get c w1")
    show ?thesis
    proof (cases r2)
      case (Inl e)
      then have "res = Some e" "w' = w2" "calls w2 = calls w1 @ [(WdGet, Some e)]"
        using run m Inr g by (auto simp: destroy_def Let_def wd_Get_def split: option.splits)
      then show ?thesis using c1 by (intro early) (simp_all add: newCalls_def)
    next
      case rc: (Inr cwd)
      then have cwd: "cwd = workdir (snd (clusterMetadata c w))"
        and c2: "calls w2 = calls w @ [(ClusterMetadataCall, None), (WdGet, None)]"
        using g c1 wd1 Inr by (auto simp: wd_Get_def leftError_def split: option.splits)
      obtain r3 w3 where t: "invoke TemporalCreate leftError (temporalCtrl_Create c) w2 = (r3, w3)"
        by (cases "invoke TemporalCreate leftError (temporalCtrl_Create c) w2")
      from invoke_run[OF t] have c3: "calls w3 = calls w2 @ [(TemporalCreate, leftError r3)]"
        by auto
      show ?thesis
      proof (cases r3)
        case (Inl e)
        then have "res = Some e" "w' = w3"
          using run m Inr g rc t by (auto simp: destroy_def Let_def)
        then show ?thesis using c3 c2 by (intro early) (simp_all add: newCalls_def)
      next
        case rt: (Inr tmpDir)
        obtain r4 w4 where d: "createDockerfile D c rd1 tmpDir opts (PipelineInstallerImage sc) w3 = (r4, w4)"
          by (cases "createDockerfile D c rd1 tmpDir opts (PipelineInstallerImage sc) w3")
        from createDockerfile_run[OF d] obtain evs where
          c4: "calls w4 = calls w3 @ evs" "list_all (\<lambda>ev. early (fst ev)) evs"
          and te: "case r4 of Inl err \<Rightarrow> (\<forall>n. (TemplateExecute n, None) \<notin> set evs)
                    | Inr df \<Rightarrow> (TemplateExecute df, None) \<in> set evs"
          by blast
        show ?thesis
        proof (cases r4)
          case (Inl e)
          then have "res = Some e" "w' = w4"
            using run m Inr g rc t rt d by (auto simp: destroy_def Let_def rd1_def)
          then show ?thesis using c4 c3 c2 te Inl rt
            by (intro early) (simp_all add: newCalls_def leftError_def)
        next
          case rdf: (Inr df)
          obtain r5 w5 where b: "restoreAndBuild D c rd1 sc cwd df w4 = (r5, w5)"
            by (cases "restoreAndBuild D c rd1 sc cwd df w4")
          have fin: "res = r5" "rd' = rd1" "w' = deferredRemove c df w5"
            using run m Inr g rc t rt d rdf b by (auto simp: destroy_def Let_def rd1_def)
          obtain rerr where c6: "calls w' = calls w5 @ [(FsRemove df, rerr)]"
            and li: "\<forall>e. rerr = Some e \<longrightarrow> logInfo w' \<noteq> []
                 \<and> last (logInfo w') = (''error removing dockerfile: %w'', e)"
            using deferredRemove_run(1)[of c df w5] fin(3) by auto
          have st: "logStage w' = logStage w5" using fin(3) by (simp add: deferredRemove_run(2))
          define pre where "pre = [(ClusterMetadataCall, None), (WdGet, None), (TemporalCreate, None)] @ evs"
          have pre: "calls w4 = calls w @ pre" "list_all (\<lambda>ev. early (fst ev)) pre"
            "take 2 pre = [(ClusterMetadataCall, None), (WdGet, None)]"
            "(TemplateExecute df, None) \<in> set pre"
            using c4 c3 c2 te rdf rt by (simp_all add: pre_def leftError_def)
          have hb: "fst (handleBuildError D err w4) = fst (handleBuildError D err w)"
            "logStage (snd (handleBuildError D err w4)) = logStage (snd (handleBuildError D err w))" for err
            by (simp_all add: handleBuildError_result)
          from restoreAndBuild_run[OF b]
          show ?thesis
          proof
            assume "\<exists>e. calls w5 = calls w4 @ [(WdChange cwd, Some e)] \<and> r5 = Some e"
            then obtain e where "calls w5 = calls w4 @ [(WdChange cwd, Some e)]" "r5 = Some e" by blast
            then have "newCalls w w' = pre @ [(WdChange (workdir (snd (clusterMetadata c w))), Some e),
                (FsRemove df, rerr)]" "res = Some e"
              using c6 pre(1) fin(1) cwd by (simp_all add: newCalls_def)
            with pre(2,3,4) li show ?thesis by (rule change)
          next
            assume "\<exists>berr wb. calls wb = calls w4 @ [(WdChange cwd, None)] \<and> workdir wb = cwd
                \<and> berr = fst (builder_Build c (buildRequest D rd1 sc cwd df) wb)
                \<and> calls w5 = calls w4 @ [(WdChange cwd, None), (BuilderBuild (buildRequest D rd1 sc cwd df), berr)]
                \<and> (case berr of None \<Rightarrow> r5 = None \<and> logStage w5 = ''done''
                    | Some err \<Rightarrow> r5 = Some (fst (handleBuildError D err w4))
                        \<and> logStage w5 = logStage (snd (handleBuildError D err w4)))
                \<and> w5 =
                    (case berr of
                       None \<Rightarrow> AddToBuffer ''info'' ''EOF'' (SetStage ''done''
                         (snd (invoke (BuilderBuild (buildRequest D rd1 sc cwd df)) (\<lambda>r. r)
                            (builder_Build c (buildRequest D rd1 sc cwd df)) wb)))
                     | Some err \<Rightarrow> snd (handleBuildError D err
                         (snd (invoke (BuilderBuild (buildRequest D rd1 sc cwd df)) (\<lambda>r. r)
                            (builder_Build c (buildRequest D rd1 sc cwd df)) wb))))"
            then obtain berr wb where
              cb: "calls wb = calls w4 @ [(WdChange cwd, None)]" "workdir wb = cwd"
                "berr = fst (builder_Build c (buildRequest D rd1 sc cwd df) wb)"
              and c5: "calls w5 = calls w4 @ [(WdChange cwd, None), (BuilderBuild (buildRequest D rd1 sc cwd df), berr)]"
              and rs: "case berr of None \<Rightarrow> r5 = None \<and> logStage w5 = ''done''
                    | Some err \<Rightarrow> r5 = Some (fst (handleBuildError D err w4))
                        \<and> logStage w5 = logStage (snd (handleBuildError D err w4))"
              and w5: "w5 =
                    (case berr of
                       None \<Rightarrow> AddToBuffer ''info'' ''EOF'' (SetStage ''done''
                         (snd (invoke (BuilderBuild (buildRequest D rd1 sc cwd df)) (\<lambda>r. r)
                            (builder_Build c (buildRequest D rd1 sc cwd df)) wb)))
                     | Some err \<Rightarrow> snd (handleBuildError D err
                         (snd (invoke (BuilderBuild (buildRequest D rd1 sc cwd df)) (\<lambda>r. r)
                            (builder_Build c (buildRequest D rd1 sc cwd df)) wb))))"
              by blast
            have fw: "w' = deferredRemove c df
               (case berr of
                  None \<Rightarrow> AddToBuffer ''info'' ''EOF'' (SetStage ''done''
                    (snd (invoke (BuilderBuild (buildRequest D rd' sc (workdir (snd (clusterMetadata c w))) df))
                       (\<lambda>r. r)
                       (builder_Build c (buildRequest D rd' sc (workdir (snd (clusterMetadata c w))) df)) wb)))
                | Some err \<Rightarrow> snd (handleBuildError D err
                    (snd (invoke (BuilderBuild (buildRequest D rd' sc (workdir (snd (clusterMetadata c w))) df))
                       (\<lambda>r. r)
                       (builder_Build c (buildRequest D rd' sc (workdir (snd (clusterMetadata c w))) df)) wb))))"
              using fin(3) unfolding w5 fin(2) cwd[symmetric] .
            have nb: "newCalls w wb = pre @ [(WdChange (workdir (snd (clusterMetadata c w))), None)]"
              "workdir wb = workdir (snd (clusterMetadata c w))"
              "berr = fst (builder_Build c
                 (buildRequest D rd' sc (workdir (snd (clusterMetadata c w))) df) wb)"
              using cb pre(1) fin(2) cwd by (simp_all add: newCalls_def)
            have gt: "fst (wd_Get c (snd (invoke ClusterMetadataCall leftError (clusterMetadata c) w)))
                = Inr (workdir (snd (clusterMetadata c w)))"
              using m g rc cwd by simp
            have n: "newCalls w w' = pre @ [(WdChange (workdir (snd (clusterMetadata c w))), None),
                (BuilderBuild (buildRequest D rd' sc (workdir (snd (clusterMetadata c w))) df), berr),
                (FsRemove df, rerr)]"
              using c5 c6 pre(1) fin(2) cwd by (simp add: newCalls_def)
            have "case berr of None \<Rightarrow> res = None \<and> logStage w' = ''done''
                    | Some err \<Rightarrow> res = Some (fst (handleBuildError D err w))
                        \<and> logStage w' = logStage (snd (handleBuildError D err w))"
              using rs fin(1) st hb by (cases berr) simp_all
            with pre(2,3,4) li n show ?thesis using nb gt fw by (rule build)
          qed
        qed
      qed
    qed
  qed
qed

subsection \<open>Evaluating the instances\<close>

lemma example_request:
  "buildRequest exampleDecls rd exampleMetadata ''/work'' ''/tmp/okteto/deploy''
     = exampleRequest\<lparr>Manifest := Some (manifest rd)\<rparr>"
  by (simp add: buildRequest_def exampleDecls_def exampleMetadata_def exampleRequest_def
      OptsFromBuildInfoForRemoteDeploy_spec_def base64_EncodeToString_def encodeStd_def Let_def)

lemmas step_defs = destroy_def invoke_def leftError_def wd_Get_def wd_Change_def rand_Int_def
  rand_Int_from_1000
  fs_Create_def fs_Stat_def afero_ReadFile_def afero_WriteFile_def fs_Remove_def tmpl_Execute_def
  createDockerfile_def createDockerignoreIfNeeded_def restoreAndBuild_def deferredRemove_def
  SetStage_def AddToBuffer_def Infof_def newCalls_def Let_def

lemma exampleDecls_sel:
  "filepath_Join exampleDecls dir name = dir @ ''/'' @ name"
  "UserError_Unwrap exampleDecls = False"
  "OktetoCommandErr_Unwrap exampleDecls = False"
  "UserError_Error exampleDecls e hint = e"
  "OktetoCommandErr_Error exampleDecls e stage = e"
  "OptsFromBuildInfoForRemoteDeploy exampleDecls = OptsFromBuildInfoForRemoteDeploy_spec"
  by (simp_all add: exampleDecls_def)

lemma example_sel:
  "PipelineRunnerImage exampleMetadata = ''okteto/pipeline-runner:1.0.0''"
  "PipelineInstallerImage exampleMetadata = ''okteto/installer:1.0.0''"
  "destroyImage exampleCommand = []"
  by (simp_all add: exampleMetadata_def exampleCommand_def)

lemmas example_run_defs = step_defs exampleDecls_sel example_sel exampleCollaborators_def
  exampleWorld_def exampleOptions_def exampleFailingBuild_def exampleFaults_def

lemma example_build_call:
  "(BuilderBuild exampleRequest, None) \<in> set (newCalls exampleWorld
      (snd (snd (destroy exampleDecls exampleCollaborators exampleCommand exampleOptions exampleWorld))))"
  "(BuilderBuild exampleRequest, Some err) \<in> set (newCalls exampleWorld
      (snd (snd (destroy exampleDecls (exampleFailingBuild err) exampleCommand exampleOptions exampleWorld))))"
proof -
  have r: "buildRequest exampleDecls (exampleCommand\<lparr>destroyImage := ''okteto/pipeline-runner:1.0.0''\<rparr>)
      exampleMetadata ''/work'' ''/tmp/okteto/deploy'' = exampleRequest"
    unfolding example_request by (simp add: exampleRequest_def exampleCommand_def)
  show "(BuilderBuild exampleRequest, None) \<in> set (newCalls exampleWorld
      (snd (snd (destroy exampleDecls exampleCollaborators exampleCommand exampleOptions exampleWorld))))"
    by (simp add: example_run_defs r)
  show "(BuilderBuild exampleRequest, Some err) \<in> set (newCalls exampleWorld
      (snd (snd (destroy exampleDecls (exampleFailingBuild err) exampleCommand exampleOptions exampleWorld))))"
    by (simp add: example_run_defs r handleBuildError_result case_prod_beta)
qed


subsection \<open>The working directory and the build request\<close>

lemma early_not_late:
  assumes "list_all (\<lambda>ev. early (fst ev)) pre"
  shows "(BuilderBuild bo, e) \<notin> set pre" "(WdChange d, e) \<notin> set pre" "(FsRemove n, e) \<notin> set pre"
  using assms by (auto simp: list_all_iff)

lemma buildRequest_fields:
  "Path (buildRequest D rd sc cwd df) =
     Path (OptsFromBuildInfoForRemoteDeploy D \<lparr>Dockerfile = df\<rparr>
       \<lparr>Path = cwd, OutputMode = ''destroy'', File = [], BuildArgs = [], Manifest = None\<rparr>)"
  "OutputMode (buildRequest D rd sc cwd df) =
     OutputMode (OptsFromBuildInfoForRemoteDeploy D \<lparr>Dockerfile = df\<rparr>
       \<lparr>Path = cwd, OutputMode = ''destroy'', File = [], BuildArgs = [], Manifest = None\<rparr>)"
  "File (buildRequest D rd sc cwd df) =
     File (OptsFromBuildInfoForRemoteDeploy D \<lparr>Dockerfile = df\<rparr>
       \<lparr>Path = cwd, OutputMode = ''destroy'', File = [], BuildArgs = [], Manifest = None\<rparr>)"
  by (simp_all add: buildRequest_def Let_def)

lemma buildRequest_spec:
  assumes "OptsFromBuildInfoForRemoteDeploy D = OptsFromBuildInfoForRemoteDeploy_spec"
  shows "Path (buildRequest D rd sc cwd df) = cwd"
    "OutputMode (buildRequest D rd sc cwd df) = ''destroy''"
    "File (buildRequest D rd sc cwd df) = df"
  by (simp_all add: buildRequest_def assms OptsFromBuildInfoForRemoteDeploy_spec_def Let_def)

lemma example_chdir_run:
  "workdir (snd (temporalCtrl_Create exampleChdirStaging exampleWorld)) = ''/tmp/okteto''"
  "(BuilderBuild exampleRequest, None) \<in> set (newCalls exampleWorld
      (snd (snd (destroy exampleDecls exampleChdirStaging exampleCommand exampleOptions exampleWorld))))"
  "fst (destroy exampleDecls exampleChdirStaging exampleCommand exampleOptions exampleWorld) = None"
proof -
  have r: "buildRequest exampleDecls (exampleCommand\<lparr>destroyImage := ''okteto/pipeline-runner:1.0.0''\<rparr>)
      exampleMetadata ''/work'' ''/tmp/okteto/deploy'' = exampleRequest"
    unfolding example_request by (simp add: exampleRequest_def exampleCommand_def)
  have p: "Path exampleRequest = ''/work''" by (simp add: exampleRequest_def)
  show "workdir (snd (temporalCtrl_Create exampleChdirStaging exampleWorld)) = ''/tmp/okteto''"
    by (simp add: exampleChdirStaging_def exampleCollaborators_def)
  show "(BuilderBuild exampleRequest, None) \<in> set (newCalls exampleWorld
      (snd (snd (destroy exampleDecls exampleChdirStaging exampleCommand exampleOptions exampleWorld))))"
    by (simp add: example_run_defs exampleChdirStaging_def r p)
  show "fst (destroy exampleDecls exampleChdirStaging exampleCommand exampleOptions exampleWorld) = None"
    by (simp add: example_run_defs exampleChdirStaging_def r p)
qed

text \<open>
  Claim C8, with \<^verbatim>\<open>OptsFromBuildInfoForRemoteDeploy\<close> as the spec has it. In a run of \<^verbatim>\<open>destroy\<close> that
  calls the builder, the run starts with the call for the metadata and the reading of the
  working directory, which gives the directory the process is in at the start. The call right
  before the build is the change of the working directory to that directory, which succeeds;
  no other change of directory is made through the controller. The builder runs in the world
  this change leaves, whose working directory is the directory read at the start, whatever the
  staging did to the working directory before. The options from which the request of the
  build is made have that directory as path and the output mode \<^verbatim>\<open>destroy\<close>, and the build info
  has the rendered Dockerfile; with the helper as the spec has it, these are the path, the
  output mode and the file of the request.
\<close>

theorem destroy_restores_cwd_before_build:
  assumes "destroy D c rd opts w = (res, rd', w')"
    and "(BuilderBuild bo, berr) \<in> set (newCalls w w')"
  shows "\<exists>pre df rerr wb.
      fst (wd_Get c (snd (invoke ClusterMetadataCall leftError (clusterMetadata c) w)))
        = Inr (workdir (snd (clusterMetadata c w)))
      \<and> newCalls w w' =
        (ClusterMetadataCall, None) # (WdGet, None) # pre @
        [(WdChange (workdir (snd (clusterMetadata c w))), None), (BuilderBuild bo, berr), (FsRemove df, rerr)]
      \<and> (\<forall>d e. (WdChange d, e) \<notin> set pre)
      \<and> (\<forall>b e. (BuilderBuild b, e) \<notin> set pre)
      \<and> newCalls w wb =
        (ClusterMetadataCall, None) # (WdGet, None) # pre @
        [(WdChange (workdir (snd (clusterMetadata c w))), None)]
      \<and> workdir wb = workdir (snd (clusterMetadata c w))
      \<and> berr = fst (builder_Build c bo wb)
      \<and> w' = deferredRemove c df
          (case berr of
             None \<Rightarrow> AddToBuffer ''info'' ''EOF'' (SetStage ''done''
               (snd (invoke (BuilderBuild bo) (\<lambda>r. r) (builder_Build c bo) wb)))
           | Some err \<Rightarrow> snd (handleBuildError D err
               (snd (invoke (BuilderBuild bo) (\<lambda>r. r) (builder_Build c bo) wb))))
      \<and> Path bo = Path (OptsFromBuildInfoForRemoteDeploy D \<lparr>Dockerfile = df\<rparr>
           \<lparr>Path = workdir (snd (clusterMetadata c w)), OutputMode = ''destroy'', File = [],
            BuildArgs = [], Manifest = None\<rparr>)
      \<and> OutputMode bo = OutputMode (OptsFromBuildInfoForRemoteDeploy D \<lparr>Dockerfile = df\<rparr>
           \<lparr>Path = workdir (snd (clusterMetadata c w)), OutputMode = ''destroy'', File = [],
            BuildArgs = [], Manifest = None\<rparr>)
      \<and> File bo = File (OptsFromBuildInfoForRemoteDeploy D \<lparr>Dockerfile = df\<rparr>
           \<lparr>Path = workdir (snd (clusterMetadata c w)), OutputMode = ''destroy'', File = [],
            BuildArgs = [], Manifest = None\<rparr>)
      \<and> (OptsFromBuildInfoForRemoteDeploy D = OptsFromBuildInfoForRemoteDeploy_spec \<longrightarrow>
           Path bo = workdir (snd (clusterMetadata c w)) \<and> OutputMode bo = ''destroy'' \<and> File bo = df)"
  using assms(1)
proof (cases rule: destroy_cases)
  case early
  have False using assms(2) early_not_late(1)[OF early(1)] by simp
  then show ?thesis ..
next
  case (change pre df rerr e)
  have False using assms(2) change(5) early_not_late(1)[OF change(1)] by simp
  then show ?thesis ..
next
  case (build pre df sc rerr b wb)
  let ?cwd = "workdir (snd (clusterMetadata c w))"
  have bo: "bo = buildRequest D rd' sc ?cwd df" "berr = b"
    using assms(2) build(5) early_not_late(1)[OF build(1)] by simp_all
  obtain pre' where pre: "pre = (ClusterMetadataCall, None) # (WdGet, None) # pre'"
    using build(2) by (cases pre; cases "tl pre") auto
  have e: "list_all (\<lambda>ev. early (fst ev)) pre'" using build(1) pre by simp
  have n: "\<forall>d e. (WdChange d, e) \<notin> set pre'" "\<forall>b e. (BuilderBuild b, e) \<notin> set pre'"
    using early_not_late(1,2)[OF e] by simp_all
  have 1: "newCalls w w' =
        (ClusterMetadataCall, None) # (WdGet, None) # pre' @
        [(WdChange ?cwd, None), (BuilderBuild bo, berr), (FsRemove df, rerr)]"
    using build(5) pre bo by simp
  have 2: "newCalls w wb = (ClusterMetadataCall, None) # (WdGet, None) # pre' @ [(WdChange ?cwd, None)]"
    using build(7) pre by simp
  have 3: "berr = fst (builder_Build c bo wb)" using build(9) bo by simp
  have 5: "w' = deferredRemove c df
          (case berr of
             None \<Rightarrow> AddToBuffer ''info'' ''EOF'' (SetStage ''done''
               (snd (invoke (BuilderBuild bo) (\<lambda>r. r) (builder_Build c bo) wb)))
           | Some err \<Rightarrow> snd (handleBuildError D err
               (snd (invoke (BuilderBuild bo) (\<lambda>r. r) (builder_Build c bo) wb))))"
    using build(11) unfolding bo .
  have 4: "OptsFromBuildInfoForRemoteDeploy D = OptsFromBuildInfoForRemoteDeploy_spec \<longrightarrow>
           Path bo = ?cwd \<and> OutputMode bo = ''destroy'' \<and> File bo = df"
    using buildRequest_spec[of D rd' sc ?cwd df] bo(1) by simp
  show ?thesis
    using build(10) 1 n 2 build(8) 3 5 buildRequest_fields[of D rd' sc ?cwd df] 4
    unfolding bo(1)[symmetric]
    by (intro exI[of _ pre'] exI[of _ df] exI[of _ rerr] exI[of _ wb]) simp
qed

theorem destroy_restores_cwd_before_build_witness:
  "workdir (snd (temporalCtrl_Create exampleChdirStaging exampleWorld)) = ''/tmp/okteto''
   \<and> (BuilderBuild exampleRequest, None) \<in> set (newCalls exampleWorld
        (snd (snd (destroy exampleDecls exampleChdirStaging exampleCommand exampleOptions exampleWorld))))
   \<and> OptsFromBuildInfoForRemoteDeploy exampleDecls = OptsFromBuildInfoForRemoteDeploy_spec
   \<and> (\<exists>pre df rerr wb.
        newCalls exampleWorld
          (snd (snd (destroy exampleDecls exampleChdirStaging exampleCommand exampleOptions exampleWorld))) =
          (ClusterMetadataCall, None) # (WdGet, None) # pre @
          [(WdChange ''/work'', None), (BuilderBuild exampleRequest, None), (FsRemove df, rerr)]
        \<and> workdir wb = ''/work''
        \<and> fst (builder_Build exampleChdirStaging exampleRequest wb) = None
        \<and> Path exampleRequest = ''/work''
        \<and> OutputMode exampleRequest = ''destroy''
        \<and> File exampleRequest = df)"
proof -
  let ?r = "destroy exampleDecls exampleChdirStaging exampleCommand exampleOptions exampleWorld"
  have h1: "OptsFromBuildInfoForRemoteDeploy exampleDecls = OptsFromBuildInfoForRemoteDeploy_spec"
    by (simp add: exampleDecls_def)
  have h2: "?r = (fst ?r, fst (snd ?r), snd (snd ?r))" by simp
  have wd: "workdir (snd (clusterMetadata exampleChdirStaging exampleWorld)) = ''/work''"
    by (simp add: exampleChdirStaging_def exampleCollaborators_def exampleWorld_def)
  from destroy_restores_cwd_before_build[OF h2 example_chdir_run(2)] obtain pre df rerr wb where
    "newCalls exampleWorld (snd (snd ?r)) =
        (ClusterMetadataCall, None) # (WdGet, None) # pre @
        [(WdChange ''/work'', None), (BuilderBuild exampleRequest, None), (FsRemove df, rerr)]"
    "workdir wb = ''/work''"
    "None = fst (builder_Build exampleChdirStaging exampleRequest wb)"
    "OptsFromBuildInfoForRemoteDeploy exampleDecls = OptsFromBuildInfoForRemoteDeploy_spec \<longrightarrow>
       Path exampleRequest = ''/work'' \<and> OutputMode exampleRequest = ''destroy'' \<and> File exampleRequest = df"
    unfolding wd by blast
  then show ?thesis using h1 example_chdir_run(1,2) by (intro conjI exI[of _ pre] exI[of _ df] exI[of _ rerr] exI[of _ wb]) simp_all
qed


subsection \<open>The error of the build\<close>

text \<open>
  Claim C1, as amended. When the build returns an error, \<^verbatim>\<open>destroy\<close> is in one of three cases. If
  \<^verbatim>\<open>errors.As\<close> finds a command error in the chain of the error, \<^verbatim>\<open>destroy\<close> returns a user error
  that wraps the cause of the command error, and the stage is the stage of the command error.
  Else, if \<^verbatim>\<open>errors.As\<close> finds a user error in the chain, \<^verbatim>\<open>destroy\<close> returns that user error,
  without what wrapped it and without wrapping it; this is the error of the build itself when
  that error is a user error. Else \<^verbatim>\<open>destroy\<close> returns a user error that wraps the error of the
  build. In the last two cases the stage is \<^verbatim>\<open>remote deploy\<close>.
\<close>

theorem destroy_classifies_build_error:
  assumes "destroy D c rd opts w = (res, rd', w')"
    and "(BuilderBuild bo, Some err) \<in> set (newCalls w w')"
  shows "(case errors_As_OktetoCommandErr D err of
        Some (cause, stage) \<Rightarrow>
          res = Some (UserError
                  (WrapError (''error during development environment deployment: '' @ Error D cause) cause) [])
          \<and> logStage w' = stage
      | None \<Rightarrow>
          logStage w' = ''remote deploy''
          \<and> (case errors_As_UserError D err of
               Some (e, hint) \<Rightarrow> res = Some (UserError e hint)
             | None \<Rightarrow>
                 res = Some (UserError
                   (WrapError (''error during destroy of the development environment: '' @ Error D err) err) [])))
     \<and> (\<forall>e hint. err = UserError e hint \<and> errors_As_OktetoCommandErr D err = None \<longrightarrow>
          res = Some err \<and> logStage w' = ''remote deploy'')"
  using assms(1)
proof (cases rule: destroy_cases)
  case early
  have False using assms(2) early_not_late(1)[OF early(1)] by simp
  then show ?thesis ..
next
  case (change pre df rerr e)
  have False using assms(2) change(5) early_not_late(1)[OF change(1)] by simp
  then show ?thesis ..
next
  case (build pre df sc rerr b wb)
  have "b = Some err" using assms(2) build(5) early_not_late(1)[OF build(1)] by simp
  then have r: "res = Some (fst (handleBuildError D err w))"
    "logStage w' = logStage (snd (handleBuildError D err w))"
    using build(6) by simp_all
  show ?thesis
    unfolding r handleBuildError_result
    by (auto split: option.splits)
qed

theorem destroy_classifies_build_error_witness:
  "(BuilderBuild exampleRequest, Some (OktetoCommandErr (ErrorString ''exit status 1'') ''installer''))
      \<in> set (newCalls exampleWorld (snd (snd (destroy exampleDecls
            (exampleFailingBuild (OktetoCommandErr (ErrorString ''exit status 1'') ''installer''))
            exampleCommand exampleOptions exampleWorld))))
   \<and> fst (destroy exampleDecls
        (exampleFailingBuild (OktetoCommandErr (ErrorString ''exit status 1'') ''installer''))
        exampleCommand exampleOptions exampleWorld)
      = Some (UserError (WrapError ''error during development environment deployment: exit status 1''
                (ErrorString ''exit status 1'')) [])
   \<and> logStage (snd (snd (destroy exampleDecls
        (exampleFailingBuild (OktetoCommandErr (ErrorString ''exit status 1'') ''installer''))
        exampleCommand exampleOptions exampleWorld))) = ''installer''
   \<and> fst (destroy exampleDecls
        (exampleFailingBuild (UserError (ErrorString ''not logged in'') ''run okteto context''))
        exampleCommand exampleOptions exampleWorld)
      = Some (UserError (ErrorString ''not logged in'') ''run okteto context'')
   \<and> logStage (snd (snd (destroy exampleDecls
        (exampleFailingBuild (UserError (ErrorString ''not logged in'') ''run okteto context''))
        exampleCommand exampleOptions exampleWorld))) = ''remote deploy''
   \<and> fst (destroy exampleDecls (exampleFailingBuild (ErrorString ''boom''))
        exampleCommand exampleOptions exampleWorld)
      = Some (UserError (WrapError ''error during destroy of the development environment: boom''
                (ErrorString ''boom'')) [])"
proof -
  have h: "destroy D c rd opts w = (fst (destroy D c rd opts w), fst (snd (destroy D c rd opts w)),
      snd (snd (destroy D c rd opts w)))" for D c rd opts w
    by simp
  note t = destroy_classifies_build_error[OF h example_build_call(2)]
  show ?thesis
    using t[of "OktetoCommandErr (ErrorString ''exit status 1'') ''installer''"]
      t[of "UserError (ErrorString ''not logged in'') ''run okteto context''"]
      t[of "ErrorString ''boom''"]
      example_build_call(2)[of "OktetoCommandErr (ErrorString ''exit status 1'') ''installer''"]
    by (simp add: exampleDecls_sel)
qed

text \<open>The claim as it was stated fails for an error that wraps a user error: \<^verbatim>\<open>destroy\<close> returns
  neither the error of the build unchanged nor a user error that wraps it, but the user error
  inside.\<close>

theorem destroy_wrapped_user_error_counterexample:
  "(BuilderBuild exampleRequest,
      Some (WrapError ''build failed: not logged in'' (UserError (ErrorString ''not logged in'') ''hint'')))
      \<in> set (newCalls exampleWorld (snd (snd (destroy exampleDecls
            (exampleFailingBuild
               (WrapError ''build failed: not logged in'' (UserError (ErrorString ''not logged in'') ''hint'')))
            exampleCommand exampleOptions exampleWorld))))
   \<and> fst (destroy exampleDecls
        (exampleFailingBuild
           (WrapError ''build failed: not logged in'' (UserError (ErrorString ''not logged in'') ''hint'')))
        exampleCommand exampleOptions exampleWorld)
      = Some (UserError (ErrorString ''not logged in'') ''hint'')"
proof -
  have "fst (destroy exampleDecls
        (exampleFailingBuild
           (WrapError ''build failed: not logged in'' (UserError (ErrorString ''not logged in'') ''hint'')))
        exampleCommand exampleOptions exampleWorld)
      = Some (UserError (ErrorString ''not logged in'') ''hint'')"
    by (simp add: example_run_defs handleBuildError_def)
  then show ?thesis using example_build_call(2) by simp
qed

subsection \<open>The removal of the Dockerfile\<close>








subsection \<open>The rendered Dockerfile\<close>

lemma linesFrom_append:
  "CHR 0x0A \<notin> set a \<Longrightarrow> linesFrom cur (a @ r) = linesFrom (cur @ a) r"
  by (induction a arbitrary: cur) auto

lemma textLines_Execute:
  assumes "OktetoBuildEnvVars p = []" and "\<forall>s\<in>set (interpolated p). CHR 0x0A \<notin> set s"
  shows \<open>textLines (Execute_dockerfileTemplate p) =
     [[],
      ''FROM '' @ OktetoCLIImage p @ '' as okteto-cli'',
      [],
      ''FROM '' @ InstallerImage p @ '' as installer'',
      [],
      ''FROM alpine as certs'',
      ''RUN apk update && apk add ca-certificates'',
      [],
      ''FROM '' @ UserDestroyImage p @ '' as deploy'',
      [],
      ''ENV PATH="${PATH}:/okteto/bin"'',
      ''COPY --from=certs /etc/ssl/certs /etc/ssl/certs'',
      ''COPY --from=installer /app/bin/* /okteto/bin/'',
      ''COPY --from=okteto-cli /usr/local/bin/* /okteto/bin/'',
      [],
      [],
      ''ENV '' @ NamespaceEnvVar p @ '' '' @ NamespaceValue p,
      ''ENV '' @ ContextEnvVar p @ '' '' @ ContextValue p,
      ''ENV '' @ TokenEnvVar p @ '' '' @ TokenValue p,
      ''ENV '' @ RemoteDeployEnvVar p @ '' true''] @
     (if ActionNameValue p \<noteq> [] then [[], ''ENV '' @ ActionNameEnvVar p @ '' '' @ ActionNameValue p] else []) @
     [[]] @
     (if GitCommitValue p \<noteq> [] then [[], ''ENV '' @ GitCommitEnvVar p @ '' '' @ GitCommitValue p] else []) @
     [[],
      [],
      ''COPY . /okteto/src'',
      ''WORKDIR /okteto/src'',
      [],
      ''ENV OKTETO_INVALIDATE_CACHE '' @ Itoa (RandomInt p),
      ''ARG OKTETO_TLS_CERT_BASE64'',
      ''ARG INTERNAL_SERVER_NAME=""'',
      ''RUN echo "$OKTETO_TLS_CERT_BASE64" | base64 -d > /etc/ssl/certs/okteto.crt'',
      ''RUN okteto destroy --log-output=json --server-name="$INTERNAL_SERVER_NAME" '' @ DestroyFlags p,
      []]\<close>
proof -
  have d: "CHR 0x0A \<notin> set (Itoa i)" for i
  proof -
    have "set (natDigits f n) \<subseteq> set decimalDigits" for f n
    proof (induction f n rule: natDigits.induct)
      case (1 n)
      then show ?case by simp
    next
      case (2 fuel n)
      have "n mod 10 < length decimalDigits" by (simp add: decimalDigits_def)
      then have "decimalDigits ! (n mod 10) \<in> set decimalDigits" by (rule nth_mem)
      moreover have "n < 10 \<Longrightarrow> decimalDigits ! n \<in> set decimalDigits"
        by (rule nth_mem) (simp add: decimalDigits_def)
      ultimately show ?case using 2 by auto
    qed
    then have "CHR 0x0A \<notin> set (natDigits f n)" for f n
      by (auto simp: decimalDigits_def)
    then show ?thesis by (simp add: Itoa_def del: natDigits.simps)
  qed
  have n: "CHR 0x0A \<notin> set (OktetoCLIImage p)" "CHR 0x0A \<notin> set (InstallerImage p)"
    "CHR 0x0A \<notin> set (UserDestroyImage p)" "CHR 0x0A \<notin> set (NamespaceEnvVar p)"
    "CHR 0x0A \<notin> set (NamespaceValue p)" "CHR 0x0A \<notin> set (ContextEnvVar p)"
    "CHR 0x0A \<notin> set (ContextValue p)" "CHR 0x0A \<notin> set (TokenEnvVar p)"
    "CHR 0x0A \<notin> set (TokenValue p)" "CHR 0x0A \<notin> set (RemoteDeployEnvVar p)"
    "CHR 0x0A \<notin> set (ActionNameEnvVar p)" "CHR 0x0A \<notin> set (ActionNameValue p)"
    "CHR 0x0A \<notin> set (GitCommitEnvVar p)" "CHR 0x0A \<notin> set (GitCommitValue p)"
    "CHR 0x0A \<notin> set (DestroyFlags p)"
    using assms(2) by (simp_all add: interpolated_def)
  show ?thesis
    unfolding textLines_def Execute_dockerfileTemplate_def NL_def assms(1)
    by (simp add: linesFrom_append n d)
qed

lemma takeWhile_until:
  "s \<notin> set a \<Longrightarrow> takeWhile (\<lambda>c. c \<noteq> s) (a @ s # z) = a"
  by (induction a) auto

lemma prefix_key_iff:
  assumes "CHR '' '' \<notin> set k" "CHR '' '' \<notin> set k2"
  shows "prefix (k @ [CHR '' '']) (k2 @ CHR '' '' # v) \<longleftrightarrow> k = k2"
proof
  assume "prefix (k @ [CHR '' '']) (k2 @ CHR '' '' # v)"
  then obtain z where "k2 @ CHR '' '' # v = k @ CHR '' '' # z" by (auto simp: prefix_def)
  then have "takeWhile (\<lambda>c. c \<noteq> CHR '' '') (k2 @ CHR '' '' # v)
      = takeWhile (\<lambda>c. c \<noteq> CHR '' '') (k @ CHR '' '' # z)" by simp
  then show "k = k2" unfolding takeWhile_until[OF assms(1)] takeWhile_until[OF assms(2)] by simp
next
  assume "k = k2"
  then show "prefix (k @ [CHR '' '']) (k2 @ CHR '' '' # v)" by (simp add: prefix_def)
qed

lemma prefix_key_no_space:
  "CHR '' '' \<notin> set r \<Longrightarrow> \<not> prefix (k @ [CHR '' '']) r"
  by (auto simp: prefix_def)

lemma prefix_key_other:
  assumes "CHR '' '' \<notin> set k" "CHR '' '' \<notin> set k2" "k \<noteq> k2"
  shows "\<not> prefix (k @ [CHR '' '']) (k2 @ CHR '' '' # v)"
  using prefix_key_iff[OF assms(1,2)] assms(3) by simp

lemma prefix_key_cache:
  assumes "CHR '' '' \<notin> set k" "k \<noteq> ''OKTETO_INVALIDATE_CACHE''"
  shows "\<not> prefix (k @ [CHR '' '']) (''OKTETO_INVALIDATE_CACHE '' @ r)"
  using prefix_key_other[OF assms(1) _ assms(2), of r] by simp

lemma prefix_key_path:
  \<open>\<not> prefix (k @ [CHR '' '']) ''PATH="${PATH}:/okteto/bin"''\<close>
  by (rule prefix_key_no_space) simp

lemma envLines_ActionName:
  assumes b: "OktetoBuildEnvVars p = []"
    and n: "\<forall>s\<in>set (interpolated p). CHR 0x0A \<notin> set s"
    and s: "\<forall>k\<in>set (envVarNames p). CHR '' '' \<notin> set k"
    and d: "distinct (''OKTETO_INVALIDATE_CACHE'' # envVarNames p)"
  shows "envLines (ActionNameEnvVar p) (Execute_dockerfileTemplate p) =
     (if ActionNameValue p = [] then []
      else [''ENV '' @ ActionNameEnvVar p @ '' '' @ ActionNameValue p])"
proof -
  have s': "CHR '' '' \<notin> set (NamespaceEnvVar p)" "CHR '' '' \<notin> set (ContextEnvVar p)"
    "CHR '' '' \<notin> set (TokenEnvVar p)" "CHR '' '' \<notin> set (RemoteDeployEnvVar p)"
    "CHR '' '' \<notin> set (ActionNameEnvVar p)" "CHR '' '' \<notin> set (GitCommitEnvVar p)"
    using s by (simp_all add: envVarNames_def)
  have d': "ActionNameEnvVar p \<noteq> NamespaceEnvVar p" "ActionNameEnvVar p \<noteq> ContextEnvVar p"
    "ActionNameEnvVar p \<noteq> TokenEnvVar p" "ActionNameEnvVar p \<noteq> RemoteDeployEnvVar p"
    "ActionNameEnvVar p \<noteq> GitCommitEnvVar p" "ActionNameEnvVar p \<noteq> ''OKTETO_INVALIDATE_CACHE''"
    using d by (auto simp: envVarNames_def)
  note no = prefix_key_other[OF s'(5) s'(1) d'(1)] prefix_key_other[OF s'(5) s'(2) d'(2)]
    prefix_key_other[OF s'(5) s'(3) d'(3)] prefix_key_other[OF s'(5) s'(4) d'(4)]
    prefix_key_other[OF s'(5) s'(6) d'(5)] prefix_key_cache[OF s'(5) d'(6), simplified]
    prefix_key_path[simplified]
  show ?thesis
    unfolding envLines_def textLines_Execute[OF b n]
    by (simp add: no)
qed

lemma envLines_GitCommit:
  assumes b: "OktetoBuildEnvVars p = []"
    and n: "\<forall>s\<in>set (interpolated p). CHR 0x0A \<notin> set s"
    and s: "\<forall>k\<in>set (envVarNames p). CHR '' '' \<notin> set k"
    and d: "distinct (''OKTETO_INVALIDATE_CACHE'' # envVarNames p)"
  shows "envLines (GitCommitEnvVar p) (Execute_dockerfileTemplate p) =
     (if GitCommitValue p = [] then []
      else [''ENV '' @ GitCommitEnvVar p @ '' '' @ GitCommitValue p])"
proof -
  have s': "CHR '' '' \<notin> set (NamespaceEnvVar p)" "CHR '' '' \<notin> set (ContextEnvVar p)"
    "CHR '' '' \<notin> set (TokenEnvVar p)" "CHR '' '' \<notin> set (RemoteDeployEnvVar p)"
    "CHR '' '' \<notin> set (ActionNameEnvVar p)" "CHR '' '' \<notin> set (GitCommitEnvVar p)"
    using s by (simp_all add: envVarNames_def)
  have d': "GitCommitEnvVar p \<noteq> NamespaceEnvVar p" "GitCommitEnvVar p \<noteq> ContextEnvVar p"
    "GitCommitEnvVar p \<noteq> TokenEnvVar p" "GitCommitEnvVar p \<noteq> RemoteDeployEnvVar p"
    "GitCommitEnvVar p \<noteq> ActionNameEnvVar p" "GitCommitEnvVar p \<noteq> ''OKTETO_INVALIDATE_CACHE''"
    using d by (auto simp: envVarNames_def)
  note no = prefix_key_other[OF s'(6) s'(1) d'(1)] prefix_key_other[OF s'(6) s'(2) d'(2)]
    prefix_key_other[OF s'(6) s'(3) d'(3)] prefix_key_other[OF s'(6) s'(4) d'(4)]
    prefix_key_other[OF s'(6) s'(5) d'(5)] prefix_key_cache[OF s'(6) d'(6), simplified]
    prefix_key_path[simplified]
  show ?thesis
    unfolding envLines_def textLines_Execute[OF b n]
    by (simp add: no)
qed

lemma required_env_lines:
  assumes b: "OktetoBuildEnvVars p = []"
    and n: "\<forall>s\<in>set (interpolated p). CHR 0x0A \<notin> set s"
  shows "''ENV '' @ ContextEnvVar p @ '' '' @ ContextValue p \<in> set (textLines (Execute_dockerfileTemplate p))"
    "''ENV '' @ NamespaceEnvVar p @ '' '' @ NamespaceValue p \<in> set (textLines (Execute_dockerfileTemplate p))"
    "''ENV '' @ TokenEnvVar p @ '' '' @ TokenValue p \<in> set (textLines (Execute_dockerfileTemplate p))"
    "''ENV '' @ RemoteDeployEnvVar p @ '' true'' \<in> set (textLines (Execute_dockerfileTemplate p))"
  unfolding textLines_Execute[OF b n] by simp_all

text \<open>
  Claim C5, as amended. Let the template be rendered on the values \<^verbatim>\<open>createDockerfile\<close> builds, let
  none of the strings it puts into the text hold a line feed, and let the names of the
  variables hold no blank and differ from each other and from \<^verbatim>\<open>OKTETO_INVALIDATE_CACHE\<close>. Then the
  text has exactly one \<^verbatim>\<open>ENV\<close> line for the action name when its value is not empty and none when
  it is empty, the same for the git commit, and it has the \<^verbatim>\<open>ENV\<close> lines of the context, the
  namespace, the token and the remote marker, which is set to \<^verbatim>\<open>true\<close>.
\<close>

theorem rendered_env_lines:
  assumes "p = dockerfileSyntax D rd opts installerImage randomNumber w"
    and "\<forall>s\<in>set (interpolated p). CHR 0x0A \<notin> set s"
    and "\<forall>k\<in>set (envVarNames p). CHR '' '' \<notin> set k"
    and "distinct (''OKTETO_INVALIDATE_CACHE'' # envVarNames p)"
  shows "envLines (ActionNameEnvVar p) (Execute_dockerfileTemplate p) =
       (if ActionNameValue p = [] then []
        else [''ENV '' @ ActionNameEnvVar p @ '' '' @ ActionNameValue p])
     \<and> envLines (GitCommitEnvVar p) (Execute_dockerfileTemplate p) =
       (if GitCommitValue p = [] then []
        else [''ENV '' @ GitCommitEnvVar p @ '' '' @ GitCommitValue p])
     \<and> ''ENV '' @ ContextEnvVar p @ '' '' @ ContextValue p \<in> set (textLines (Execute_dockerfileTemplate p))
     \<and> ''ENV '' @ NamespaceEnvVar p @ '' '' @ NamespaceValue p \<in> set (textLines (Execute_dockerfileTemplate p))
     \<and> ''ENV '' @ TokenEnvVar p @ '' '' @ TokenValue p \<in> set (textLines (Execute_dockerfileTemplate p))
     \<and> ''ENV '' @ RemoteDeployEnvVar p @ '' true'' \<in> set (textLines (Execute_dockerfileTemplate p))"
proof -
  have b: "OktetoBuildEnvVars p = []" using assms(1) by (simp add: dockerfileSyntax_def)
  show ?thesis
    using envLines_ActionName[OF b assms(2,3,4)] envLines_GitCommit[OF b assms(2,3,4)]
      required_env_lines[OF b assms(2)]
    by blast
qed

lemma exampleDecls_names:
  "OktetoCLIImageForRemoteTemplate exampleDecls = ''okteto/okteto:%s''"
  "OKtetoDeployRemoteImage exampleDecls = ''OKTETO_REMOTE_CLI_IMAGE''"
  "OKtetoDeployRemote exampleDecls = ''OKTETO_DEPLOY_REMOTE''"
  "OktetoGitCommitEnvVar exampleDecls = ''OKTETO_GIT_COMMIT''"
  "OktetoContextEnvVar exampleDecls = ''OKTETO_CONTEXT''"
  "OktetoNamespaceEnvVar exampleDecls = ''OKTETO_NAMESPACE''"
  "OktetoTokenEnvVar exampleDecls = ''OKTETO_TOKEN''"
  "OktetoActionNameEnvVar exampleDecls = ''OKTETO_ACTION_NAME''"
  "VersionString exampleDecls = ''1.2.3''"
  by (simp_all add: exampleDecls_def)

lemma Itoa_digit: "0 \<le> i \<Longrightarrow> i < 10 \<Longrightarrow> Itoa i = [decimalDigits ! nat i]"
  by (simp add: Itoa_def)

lemma getOktetoCLIVersion_release:
  "getOktetoCLIVersion D getenv ''1.2.3'' = Sprintf (OktetoCLIImageForRemoteTemplate D) [''1.2.3'']"
  using MatchString_version_examples(1) by (simp only: getOktetoCLIVersion_def if_True)

lemma example_syntax:
  \<open>dockerfileSyntax exampleDecls exampleCommand exampleOptions ''okteto/installer:1.0.0'' 7
     (exampleEnviron vars) =
     \<lparr>OktetoCLIImage = ''okteto/okteto:1.2.3'',
      UserDestroyImage = [],
      InstallerImage = ''okteto/installer:1.0.0'',
      OktetoBuildEnvVars = [],
      ContextEnvVar = ''OKTETO_CONTEXT'',
      ContextValue = ''https://cloud.example'',
      NamespaceEnvVar = ''OKTETO_NAMESPACE'',
      NamespaceValue = ''ns1'',
      TokenEnvVar = ''OKTETO_TOKEN'',
      TokenValue = ''t0k3n'',
      ActionNameEnvVar = ''OKTETO_ACTION_NAME'',
      ActionNameValue = (case map_of vars ''OKTETO_ACTION_NAME'' of None \<Rightarrow> [] | Some v \<Rightarrow> v),
      GitCommitEnvVar = ''OKTETO_GIT_COMMIT'',
      GitCommitValue = (case map_of vars ''OKTETO_GIT_COMMIT'' of None \<Rightarrow> [] | Some v \<Rightarrow> v),
      RemoteDeployEnvVar = ''OKTETO_DEPLOY_REMOTE'',
      DeployFlags = [],
      RandomInt = 7,
      DestroyFlags = ''--name "myenv" --namespace ns1 --volumes''\<rparr>\<close>
  by (simp add: dockerfileSyntax_def exampleDecls_names exampleCommand_def exampleOptions_def
      exampleEnviron_def exampleWorld_def getOktetoCLIVersion_release getDestroyFlags_eq)

theorem rendered_env_lines_witness:
  "envLines ''OKTETO_ACTION_NAME''
      (Execute_dockerfileTemplate
        (dockerfileSyntax exampleDecls exampleCommand exampleOptions ''okteto/installer:1.0.0'' 7
          (exampleEnviron [(''OKTETO_ACTION_NAME'', ''preview'')])))
     = [''ENV OKTETO_ACTION_NAME preview'']
   \<and> envLines ''OKTETO_GIT_COMMIT''
      (Execute_dockerfileTemplate
        (dockerfileSyntax exampleDecls exampleCommand exampleOptions ''okteto/installer:1.0.0'' 7
          (exampleEnviron [(''OKTETO_ACTION_NAME'', ''preview'')])))
     = []
   \<and> ''ENV OKTETO_CONTEXT https://cloud.example'' \<in> set (textLines
      (Execute_dockerfileTemplate
        (dockerfileSyntax exampleDecls exampleCommand exampleOptions ''okteto/installer:1.0.0'' 7
          (exampleEnviron [(''OKTETO_ACTION_NAME'', ''preview'')]))))
   \<and> ''ENV OKTETO_DEPLOY_REMOTE true'' \<in> set (textLines
      (Execute_dockerfileTemplate
        (dockerfileSyntax exampleDecls exampleCommand exampleOptions ''okteto/installer:1.0.0'' 7
          (exampleEnviron [(''OKTETO_ACTION_NAME'', ''preview'')]))))"
proof -
  let ?p = "dockerfileSyntax exampleDecls exampleCommand exampleOptions ''okteto/installer:1.0.0'' 7
          (exampleEnviron [(''OKTETO_ACTION_NAME'', ''preview'')])"
  have h: "\<forall>s\<in>set (interpolated ?p). CHR 0x0A \<notin> set s"
    "\<forall>k\<in>set (envVarNames ?p). CHR '' '' \<notin> set k"
    "distinct (''OKTETO_INVALIDATE_CACHE'' # envVarNames ?p)"
    unfolding example_syntax by (simp_all add: interpolated_def envVarNames_def)
  from rendered_env_lines[OF refl h] show ?thesis
    unfolding example_syntax by simp
qed

text \<open>The claim as it was stated fails for a value with a line feed: with no action name and a
  git commit that holds a line feed followed by the text of an \<^verbatim>\<open>ENV\<close> instruction, the rendered
  text has an \<^verbatim>\<open>ENV\<close> line for the action name.\<close>

theorem rendered_env_lines_injection_counterexample:
  "ActionNameValue
      (dockerfileSyntax exampleDecls exampleCommand exampleOptions ''okteto/installer:1.0.0'' 7
        (exampleEnviron [(''OKTETO_GIT_COMMIT'', ''abc'' @ [CHR 0x0A] @ ''ENV OKTETO_ACTION_NAME x'')]))
     = []
   \<and> envLines ''OKTETO_ACTION_NAME''
      (Execute_dockerfileTemplate
        (dockerfileSyntax exampleDecls exampleCommand exampleOptions ''okteto/installer:1.0.0'' 7
          (exampleEnviron [(''OKTETO_GIT_COMMIT'', ''abc'' @ [CHR 0x0A] @ ''ENV OKTETO_ACTION_NAME x'')])))
     = [''ENV OKTETO_ACTION_NAME x'']"
  unfolding example_syntax
  by (simp add: envLines_def textLines_def Execute_dockerfileTemplate_def NL_def Itoa_digit decimalDigits_def)

subsection \<open>The nonce\<close>

lemma Execute_embeds_nonce:
  "\<exists>a b. Execute_dockerfileTemplate p =
     a @ NL @ ''ENV OKTETO_INVALIDATE_CACHE '' @ Itoa (RandomInt p) @ NL @ b"
  unfolding Execute_dockerfileTemplate_def
  by (intro
      exI[of _ \<open>concat
        [NL,
         ''FROM '', OktetoCLIImage p, '' as okteto-cli'', NL,
         NL,
         ''FROM '', InstallerImage p, '' as installer'', NL,
         NL,
         ''FROM alpine as certs'', NL,
         ''RUN apk update && apk add ca-certificates'', NL,
         NL,
         ''FROM '', UserDestroyImage p, '' as deploy'', NL,
         NL,
         ''ENV PATH="${PATH}:/okteto/bin"'', NL,
         ''COPY --from=certs /etc/ssl/certs /etc/ssl/certs'', NL,
         ''COPY --from=installer /app/bin/* /okteto/bin/'', NL,
         ''COPY --from=okteto-cli /usr/local/bin/* /okteto/bin/'', NL,
         NL,
         concat (map (\<lambda>(key, val). concat [NL, ''ENV '', key, '' '', val, NL]) (OktetoBuildEnvVars p)),
         NL,
         ''ENV '', NamespaceEnvVar p, '' '', NamespaceValue p, NL,
         ''ENV '', ContextEnvVar p, '' '', ContextValue p, NL,
         ''ENV '', TokenEnvVar p, '' '', TokenValue p, NL,
         ''ENV '', RemoteDeployEnvVar p, '' true'', NL,
         (if ActionNameValue p \<noteq> [] then concat [NL, ''ENV '', ActionNameEnvVar p, '' '', ActionNameValue p, NL]
          else []),
         NL,
         (if GitCommitValue p \<noteq> [] then concat [NL, ''ENV '', GitCommitEnvVar p, '' '', GitCommitValue p, NL]
          else []),
         NL,
         NL,
         ''COPY . /okteto/src'', NL,
         ''WORKDIR /okteto/src'', NL]\<close>]
      exI[of _ \<open>concat
        [''ARG OKTETO_TLS_CERT_BASE64'', NL,
         ''ARG INTERNAL_SERVER_NAME=""'', NL,
         ''RUN echo "$OKTETO_TLS_CERT_BASE64" | base64 -d > /etc/ssl/certs/okteto.crt'', NL,
         ''RUN okteto destroy --log-output=json --server-name="$INTERNAL_SERVER_NAME" '', DestroyFlags p, NL]\<close>])
    simp

text \<open>
  Claim C3, as amended. When \<^verbatim>\<open>createDockerfile\<close> succeeds, the Dockerfile holds the template
  rendered with the nonce that \<^verbatim>\<open>rand.Int\<close> draws from the random source. \<^verbatim>\<open>rand.Int\<close> reads the
  source two bytes at a time, makes a number of ten bits of each pair (the low two bits of the
  first byte, then the second byte) and returns the first number below 1000: the pairs before
  it are dropped, and the source moves on past the pair taken. So the nonce is a number from 0
  to 999; it is printed after \<^verbatim>\<open>ENV OKTETO_INVALIDATE_CACHE\<close>. The next rendering draws its nonce in
  the same way from the bytes that follow, and nothing makes it differ from the one before.
\<close>

theorem createDockerfile_nonce:
  assumes "createDockerfile D c rd tmp opts img w = (Inr df, w1)"
  shows "\<exists>n skipped a b.
        randReader w = skipped @ a # b # randReader w1 \<and> redrawn skipped
      \<and> n = of_char a mod 4 * 256 + of_char b \<and> n < 1000
      \<and> rand_Int_from 1000 (randReader w) = (Inr n, randReader w1)
      \<and> files w1 df = Some (Execute_dockerfileTemplate (dockerfileSyntax D rd opts img n w))
      \<and> RandomInt (dockerfileSyntax D rd opts img n w) = int n
      \<and> (\<exists>x y. Execute_dockerfileTemplate (dockerfileSyntax D rd opts img n w) =
            x @ NL @ ''ENV OKTETO_INVALIDATE_CACHE '' @ Itoa (int n) @ NL @ y)
      \<and> (\<forall>rd' tmp' opts' img' df' w2.
            createDockerfile D c rd' tmp' opts' img' w1 = (Inr df', w2) \<longrightarrow>
            (\<exists>m. rand_Int_from 1000 (randReader w1) = (Inr m, randReader w2)
               \<and> files w2 df' =
                   Some (Execute_dockerfileTemplate (dockerfileSyntax D rd' opts' img' m w1))))"
proof -
  from createDockerfile_run[OF assms] obtain n where
    1: "rand_Int_from 1000 (randReader w) = (Inr n, randReader w1)"
      "files w1 df = Some (Execute_dockerfileTemplate (dockerfileSyntax D rd opts img n w))"
    by auto
  from rand_Int_from_1000_Inr[OF 1(1)] obtain skipped a b where
    2: "randReader w = skipped @ a # b # randReader w1" "redrawn skipped"
      "n = of_char a mod 4 * 256 + of_char b" "n < 1000"
    by blast
  have 3: "RandomInt (dockerfileSyntax D rd opts img n w) = int n"
    by (simp add: dockerfileSyntax_def)
  have 4: "\<exists>x y. Execute_dockerfileTemplate (dockerfileSyntax D rd opts img n w) =
            x @ NL @ ''ENV OKTETO_INVALIDATE_CACHE '' @ Itoa (int n) @ NL @ y"
    using Execute_embeds_nonce[of "dockerfileSyntax D rd opts img n w"] unfolding 3 .
  have 5: "\<exists>m. rand_Int_from 1000 (randReader w1) = (Inr m, randReader w2)
               \<and> files w2 df' =
                   Some (Execute_dockerfileTemplate (dockerfileSyntax D rd' opts' img' m w1))"
    if "createDockerfile D c rd' tmp' opts' img' w1 = (Inr df', w2)" for rd' tmp' opts' img' df' w2
    using createDockerfile_run[OF that] by auto
  show ?thesis
    using 1 2 3 4 5 by (intro exI[of _ n] exI[of _ skipped] exI[of _ a] exI[of _ b]) blast
qed

lemma example_render:
  assumes "files w ''/work/.oktetodeployignore'' = Some content" "workdir w = ''/work''"
    "rand_Int_from 1000 (randReader w) = (Inr n, rest)"
  shows "fst (createDockerfile exampleDecls exampleCollaborators rd ''/tmp/okteto'' opts img w)
      = Inr ''/tmp/okteto/deploy''"
    "files (snd (createDockerfile exampleDecls exampleCollaborators rd ''/tmp/okteto'' opts img w))
       ''/work/.oktetodeployignore'' = Some content"
    "workdir (snd (createDockerfile exampleDecls exampleCollaborators rd ''/tmp/okteto'' opts img w)) = ''/work''"
    "environ (snd (createDockerfile exampleDecls exampleCollaborators rd ''/tmp/okteto'' opts img w)) = environ w"
    "okctx (snd (createDockerfile exampleDecls exampleCollaborators rd ''/tmp/okteto'' opts img w)) = okctx w"
  using assms
  by (simp_all add: createDockerfile_def createDockerignoreIfNeeded_def wd_Get_def rand_Int_def
      fs_Create_def fs_Stat_def afero_ReadFile_def afero_WriteFile_def tmpl_Execute_def Let_def
      leftError_def exampleCollaborators_def exampleDecls_sel)

lemma example_world_sel:
  "files exampleWorld ''/work/.oktetodeployignore'' = Some ''node_modules''"
  "workdir exampleWorld = ''/work''"
  "rand_Int_from 1000 (randReader exampleWorld) = (Inr 7, [CHR 0x00, CHR 0x07])"
  "exampleEnviron [] = exampleWorld"
  by (simp_all add: exampleWorld_def exampleEnviron_def rand_Int_from_1000)

lemma example_nonce_line:
  "envLines ''OKTETO_INVALIDATE_CACHE''
     (Execute_dockerfileTemplate
        (dockerfileSyntax exampleDecls exampleCommand exampleOptions ''okteto/installer:1.0.0'' 7 exampleWorld))
   = [''ENV OKTETO_INVALIDATE_CACHE 7'']"
  unfolding example_world_sel(4)[symmetric] example_syntax
  by (simp add: envLines_def textLines_def Execute_dockerfileTemplate_def NL_def Itoa_digit decimalDigits_def)

theorem createDockerfile_nonce_witness:
  "fst (createDockerfile exampleDecls exampleCollaborators exampleCommand ''/tmp/okteto'' exampleOptions
          ''okteto/installer:1.0.0''
          (exampleWorld\<lparr>randReader := [CHR 0xFF, CHR 0xFF, CHR 0x04, CHR 0xD2, CHR 0x2A]\<rparr>))
      = Inr ''/tmp/okteto/deploy''
   \<and> files (snd (createDockerfile exampleDecls exampleCollaborators exampleCommand ''/tmp/okteto'' exampleOptions
          ''okteto/installer:1.0.0''
          (exampleWorld\<lparr>randReader := [CHR 0xFF, CHR 0xFF, CHR 0x04, CHR 0xD2, CHR 0x2A]\<rparr>)))
        ''/tmp/okteto/deploy''
      = Some (Execute_dockerfileTemplate
          (dockerfileSyntax exampleDecls exampleCommand exampleOptions ''okteto/installer:1.0.0'' 210
             (exampleWorld\<lparr>randReader := [CHR 0xFF, CHR 0xFF, CHR 0x04, CHR 0xD2, CHR 0x2A]\<rparr>)))
   \<and> randReader (snd (createDockerfile exampleDecls exampleCollaborators exampleCommand ''/tmp/okteto''
          exampleOptions ''okteto/installer:1.0.0''
          (exampleWorld\<lparr>randReader := [CHR 0xFF, CHR 0xFF, CHR 0x04, CHR 0xD2, CHR 0x2A]\<rparr>)))
      = [CHR 0x2A]"
proof -
  let ?w = "exampleWorld\<lparr>randReader := [CHR 0xFF, CHR 0xFF, CHR 0x04, CHR 0xD2, CHR 0x2A]\<rparr>"
  let ?r = "createDockerfile exampleDecls exampleCollaborators exampleCommand ''/tmp/okteto'' exampleOptions
          ''okteto/installer:1.0.0'' ?w"
  have d: "rand_Int_from 1000 (randReader ?w) = (Inr 210, [CHR 0x2A])"
    by (simp add: rand_Int_from_1000)
  have f: "fst ?r = Inr ''/tmp/okteto/deploy''"
    by (rule example_render(1)[OF _ _ d]) (simp_all add: exampleWorld_def)
  then have h: "?r = (Inr ''/tmp/okteto/deploy'', snd ?r)" by (metis prod.collapse)
  from createDockerfile_nonce[OF h] obtain n where
    "rand_Int_from 1000 (randReader ?w) = (Inr n, randReader (snd ?r))"
    "files (snd ?r) ''/tmp/okteto/deploy''
       = Some (Execute_dockerfileTemplate
           (dockerfileSyntax exampleDecls exampleCommand exampleOptions ''okteto/installer:1.0.0'' n ?w))"
    by blast
  then show ?thesis using f unfolding d by simp
qed

text \<open>The claim as it was stated fails when the random source yields the same bytes twice: two
  renderings in a row then hold the same nonce.\<close>

theorem createDockerfile_same_nonce_counterexample:
  "map_option (envLines ''OKTETO_INVALIDATE_CACHE'') (files exampleFirstRender ''/tmp/okteto/deploy'')
     = Some [''ENV OKTETO_INVALIDATE_CACHE 7'']
   \<and> map_option (envLines ''OKTETO_INVALIDATE_CACHE'') (files exampleSecondRender ''/tmp/okteto/deploy'')
     = Some [''ENV OKTETO_INVALIDATE_CACHE 7'']"
proof -
  let ?cd = "createDockerfile exampleDecls exampleCollaborators exampleCommand ''/tmp/okteto'' exampleOptions
      ''okteto/installer:1.0.0''"
  have f1: "fst (?cd exampleWorld) = Inr ''/tmp/okteto/deploy''"
    by (rule example_render(1)[OF example_world_sel(1,2,3)])
  then have h1: "?cd exampleWorld = (Inr ''/tmp/okteto/deploy'', exampleFirstRender)"
    unfolding exampleFirstRender_def by (metis prod.collapse)
  from createDockerfile_run[OF h1] have
    r1: "randReader exampleFirstRender = [CHR 0x00, CHR 0x07]"
    and c1: "files exampleFirstRender ''/tmp/okteto/deploy'' = Some (Execute_dockerfileTemplate
        (dockerfileSyntax exampleDecls exampleCommand exampleOptions ''okteto/installer:1.0.0'' 7 exampleWorld))"
    by (auto simp: example_world_sel)
  have d1: "rand_Int_from 1000 (randReader exampleFirstRender) = (Inr 7, [])"
    unfolding r1 by (simp add: rand_Int_from_1000)
  have w1: "files exampleFirstRender ''/work/.oktetodeployignore'' = Some ''node_modules''"
    "workdir exampleFirstRender = ''/work''"
    "environ exampleFirstRender = environ exampleWorld" "okctx exampleFirstRender = okctx exampleWorld"
    unfolding exampleFirstRender_def
    using example_render(2,3,4,5)[OF example_world_sel(1,2,3)] by simp_all
  have f2: "fst (?cd exampleFirstRender) = Inr ''/tmp/okteto/deploy''"
    by (rule example_render(1)[OF w1(1,2) d1])
  then have h2: "?cd exampleFirstRender = (Inr ''/tmp/okteto/deploy'', exampleSecondRender)"
    unfolding exampleSecondRender_def by (metis prod.collapse)
  from createDockerfile_run[OF h2] have
    "files exampleSecondRender ''/tmp/okteto/deploy'' = Some (Execute_dockerfileTemplate
        (dockerfileSyntax exampleDecls exampleCommand exampleOptions ''okteto/installer:1.0.0'' 7
          exampleFirstRender))"
    by (auto simp: d1)
  then have c2: "files exampleSecondRender ''/tmp/okteto/deploy'' = Some (Execute_dockerfileTemplate
        (dockerfileSyntax exampleDecls exampleCommand exampleOptions ''okteto/installer:1.0.0'' 7 exampleWorld))"
    using dockerfileSyntax_cong[OF w1(3,4)] by simp
  show ?thesis unfolding c1 c2 by (simp add: example_nonce_line)
qed

end
